theory Spec2Isabelle
  imports Complex_Main
begin

section \<open>JavaScript values and errors\<close>

text \<open>
  Every \<^verbatim>\<open>throw\<close> of the library is a value of type \<open>error\<close>; a function that may
  throw returns \<open>error + 'a\<close>, with \<open>Inl\<close> for the exception.
  \<^item> \<open>NotADigit c\<close>: \<^verbatim>\<open>new Error(`Not a digit: ${c}`)\<close> (integerCharToDigit);
  \<^item> \<open>BigIntSyntaxError s\<close>: the SyntaxError of \<^verbatim>\<open>BigInt(s)\<close> on a string that is no
    decimal literal;
  \<^item> \<open>IllegalNumberFormat n\<close>: \<^verbatim>\<open>new SyntaxError(`Illegal number format "${n}"`)\<close>;
  \<^item> \<open>IntegerTooLarge\<close>, \<open>ExponentTooBig\<close>, \<open>ExponentTooSmall\<close>: the three RangeErrors
    of validateConstructorData;
  \<^item> \<open>NotSafeInteger\<close> (TypeError) and \<open>NegativeDecimalDigits\<close> (RangeError): the two
    argument checks of \<^verbatim>\<open>Decimal128.round\<close>;
  \<^item> \<open>ArgumentNotInteger\<close> (TypeError) and \<open>NegativeArgument\<close> (RangeError): the two
    argument checks of \<^verbatim>\<open>Decimal128.toDecimalPlaces\<close>;
  \<^item> \<open>ExponentNotInteger\<close>: the TypeError of \<^verbatim>\<open>Decimal128.pow\<close>.
\<close>

datatype error =
    NotADigit char
  | BigIntSyntaxError string
  | IllegalNumberFormat string
  | IntegerTooLarge
  | ExponentTooBig
  | ExponentTooSmall
  | NotSafeInteger
  | NegativeDecimalDigits
  | ArgumentNotInteger
  | NegativeArgument
  | ExponentNotInteger

definition bindE :: "error + 'a \<Rightarrow> ('a \<Rightarrow> error + 'b) \<Rightarrow> error + 'b" where
  "bindE m f = (case m of Inl e \<Rightarrow> Inl e | Inr x \<Rightarrow> f x)"

text \<open>
  A value of TypeScript type \<^verbatim>\<open>Digit\<close> is, at run time, a JavaScript number or
  \<^verbatim>\<open>undefined\<close>: an array read past the end gives \<^verbatim>\<open>undefined\<close>, and
  \<^verbatim>\<open>parseInt\<close> of a string with no digit gives \<^verbatim>\<open>NaN\<close>.
\<close>

datatype jsval = JNum int | JNaN | JUndefined

text \<open>\<^verbatim>\<open>x + 1\<close>, \<^verbatim>\<open>x >= k\<close>, \<^verbatim>\<open>x > k\<close>, \<^verbatim>\<open>x === k\<close> and \<^verbatim>\<open>x % 2 === 0\<close> on such a value:
  \<^verbatim>\<open>undefined\<close> converts to \<^verbatim>\<open>NaN\<close>, and every comparison with \<^verbatim>\<open>NaN\<close> is false.\<close>

fun js_plus1 :: "jsval \<Rightarrow> jsval" where
  "js_plus1 (JNum n) = JNum (n + 1)"
| "js_plus1 JNaN = JNaN"
| "js_plus1 JUndefined = JNaN"

fun js_ge :: "jsval \<Rightarrow> int \<Rightarrow> bool" where
  "js_ge (JNum n) k = (n \<ge> k)"
| "js_ge JNaN k = False"
| "js_ge JUndefined k = False"

fun js_gt :: "jsval \<Rightarrow> int \<Rightarrow> bool" where
  "js_gt (JNum n) k = (n > k)"
| "js_gt JNaN k = False"
| "js_gt JUndefined k = False"

fun js_eq :: "jsval \<Rightarrow> int \<Rightarrow> bool" where
  "js_eq (JNum n) k = (n = k)"
| "js_eq JNaN k = False"
| "js_eq JUndefined k = False"

fun js_even :: "jsval \<Rightarrow> bool" where
  "js_even (JNum n) = (n mod 2 = 0)"
| "js_even JNaN = False"
| "js_even JUndefined = False"

subsection \<open>Numbers to strings and back\<close>

definition digit_char :: "nat \<Rightarrow> char" where
  "digit_char d = ''0123456789'' ! d"

text \<open>The decimal rendering of a non-negative integer (\<^verbatim>\<open>String(n)\<close>, \<^verbatim>\<open>`${n}`\<close>).\<close>

fun show_nat :: "nat \<Rightarrow> string" where
  "show_nat n =
     (if n < 10 then [digit_char n] else show_nat (n div 10) @ [digit_char (n mod 10)])"

declare show_nat.simps [simp del]

definition show_int :: "int \<Rightarrow> string" where
  "show_int i = (if i < 0 then CHR ''-'' # show_nat (nat (- i)) else show_nat (nat i))"

text \<open>The template literal \<^verbatim>\<open>`${v}`\<close>.\<close>

fun js_to_string :: "jsval \<Rightarrow> string" where
  "js_to_string (JNum n) = show_int n"
| "js_to_string JNaN = ''NaN''"
| "js_to_string JUndefined = ''undefined''"

definition is_digit :: "char \<Rightarrow> bool" where
  "is_digit c = (c \<in> set ''0123456789'')"

subsection \<open>integerCharToDigit, explodeDigits\<close>

definition integerCharToDigit :: "char \<Rightarrow> error + nat" where
  "integerCharToDigit c =
     (if c = CHR ''0'' then Inr 0
      else if c = CHR ''1'' then Inr 1
      else if c = CHR ''2'' then Inr 2
      else if c = CHR ''3'' then Inr 3
      else if c = CHR ''4'' then Inr 4
      else if c = CHR ''5'' then Inr 5
      else if c = CHR ''6'' then Inr 6
      else if c = CHR ''7'' then Inr 7
      else if c = CHR ''8'' then Inr 8
      else if c = CHR ''9'' then Inr 9
      else Inl (NotADigit c))"

text \<open>\<^verbatim>\<open>s.split("").map(integerCharToDigit)\<close>: the first character that is no digit throws.\<close>

fun explodeDigits :: "string \<Rightarrow> error + nat list" where
  "explodeDigits [] = Inr []"
| "explodeDigits (c # cs) =
     (case integerCharToDigit c of
        Inl e \<Rightarrow> Inl e
      | Inr d \<Rightarrow> (case explodeDigits cs of Inl e \<Rightarrow> Inl e | Inr ds \<Rightarrow> Inr (d # ds)))"

text \<open>
  The value of a string of decimal digits, and \<^verbatim>\<open>parseInt\<close>: an optional sign, then the
  longest prefix of digits; \<^verbatim>\<open>NaN\<close> when that prefix is empty. (Leading white space and
  the \<^verbatim>\<open>0x\<close> prefix are not modelled: no caller passes them.) \<^verbatim>\<open>parseInt(undefined)\<close>
  is \<^verbatim>\<open>NaN\<close>.
\<close>

definition digit_value :: "char \<Rightarrow> nat" where
  "digit_value c = (case integerCharToDigit c of Inr d \<Rightarrow> d | Inl e \<Rightarrow> 0)"

definition nat_of_digits :: "string \<Rightarrow> nat" where
  "nat_of_digits s = foldl (\<lambda>a c. 10 * a + digit_value c) 0 s"

definition parseInt_unsigned :: "string \<Rightarrow> int option" where
  "parseInt_unsigned s =
     (let ds = takeWhile is_digit s
      in if ds = [] then None else Some (int (nat_of_digits ds)))"

fun parseInt :: "string option \<Rightarrow> jsval" where
  "parseInt None = JNaN"
| "parseInt (Some []) = JNaN"
| "parseInt (Some (c # cs)) =
     (if c = CHR ''-'' then
        (case parseInt_unsigned cs of None \<Rightarrow> JNaN | Some n \<Rightarrow> JNum (- n))
      else if c = CHR ''+'' then
        (case parseInt_unsigned cs of None \<Rightarrow> JNaN | Some n \<Rightarrow> JNum n)
      else
        (case parseInt_unsigned (c # cs) of None \<Rightarrow> JNaN | Some n \<Rightarrow> JNum n))"

text \<open>\<^verbatim>\<open>BigInt(s)\<close> on a string of decimal digits; the empty string is \<open>0n\<close>.\<close>

definition BigInt :: "string \<Rightarrow> error + int" where
  "BigInt s = (if list_all is_digit s then Inr (int (nat_of_digits s)) else Inl (BigIntSyntaxError s))"

text \<open>\<^verbatim>\<open>s.charAt(i)\<close>, and \<^verbatim>\<open>"0".repeat(n)\<close>.\<close>

definition charAt :: "string \<Rightarrow> nat \<Rightarrow> string" where
  "charAt s i = (if i < length s then [s ! i] else [])"

definition repeat0 :: "nat \<Rightarrow> string" where
  "repeat0 n = replicate n (CHR ''0'')"

text \<open>
  \<^verbatim>\<open>s.split(sep)\<close> for a separator that matches one character. The result of
  \<^verbatim>\<open>split\<close> is never empty, so it is given as its first piece and the list of the
  others; \<^verbatim>\<open>let [lhs, rhs] = s.split(sep)\<close> binds \<open>lhs\<close> to the first piece and
  \<open>rhs\<close> to the second, \<^verbatim>\<open>undefined\<close> (\<open>None\<close>) when there is none.
\<close>

fun split_on :: "(char \<Rightarrow> bool) \<Rightarrow> string \<Rightarrow> string \<times> string list" where
  "split_on p [] = ([], [])"
| "split_on p (c # cs) =
     (let (x, xs) = split_on p cs
      in if p c then ([], x # xs) else (c # x, xs))"

definition second_piece :: "string list \<Rightarrow> string option" where
  "second_piece xs = (case xs of [] \<Rightarrow> None | r # rest \<Rightarrow> Some r)"

definition is_dot :: "char \<Rightarrow> bool" where
  "is_dot c = (c = CHR ''.'')"

definition is_eE :: "char \<Rightarrow> bool" where
  "is_eE c = (c = CHR ''e'' \<or> c = CHR ''E'')"

text \<open>A string operand of \<^verbatim>\<open>+\<close> that may be \<^verbatim>\<open>undefined\<close>.\<close>

definition str_or_undefined :: "string option \<Rightarrow> string" where
  "str_or_undefined r = (case r of None \<Rightarrow> ''undefined'' | Some s \<Rightarrow> s)"

subsection \<open>The unanchored patterns\<close>

text \<open>
  \<^verbatim>\<open>/^-/\<close>, \<^verbatim>\<open>/^0[.]/\<close>, \<^verbatim>\<open>/[.]/\<close>, \<^verbatim>\<open>/^0+/\<close>, \<^verbatim>\<open>/0+$/\<close> and \<^verbatim>\<open>/[.]0+/\<close> as tests, with the
  length of the match where the code reads it, and the \<^verbatim>\<open>replace\<close> calls on them.
\<close>

definition is_zero :: "char \<Rightarrow> bool" where
  "is_zero c = (c = CHR ''0'')"

definition match_minus :: "string \<Rightarrow> bool" where
  "match_minus s = (case s of [] \<Rightarrow> False | c # cs \<Rightarrow> c = CHR ''-'')"

definition match_zero_dot :: "string \<Rightarrow> bool" where
  "match_zero_dot s = (take 2 s = ''0.'')"

definition match_dot :: "string \<Rightarrow> bool" where
  "match_dot s = list_ex is_dot s"

fun remove_first_dot :: "string \<Rightarrow> string" where
  "remove_first_dot [] = []"
| "remove_first_dot (c # cs) = (if is_dot c then cs else c # remove_first_dot cs)"

definition match_leading_zeros :: "string \<Rightarrow> bool" where
  "match_leading_zeros s = (case s of [] \<Rightarrow> False | c # cs \<Rightarrow> is_zero c)"

definition strip_leading_zeros :: "string \<Rightarrow> string" where
  "strip_leading_zeros s = dropWhile is_zero s"

text \<open>The length of the match of \<^verbatim>\<open>/0+$/\<close> (the whole run of zeros at the end), 0 for no match.\<close>

definition trailing_zeros :: "string \<Rightarrow> nat" where
  "trailing_zeros s = length (takeWhile is_zero (rev s))"

definition strip_trailing_zeros :: "string \<Rightarrow> string" where
  "strip_trailing_zeros s = rev (dropWhile is_zero (rev s))"

text \<open>The length of the leftmost match of \<^verbatim>\<open>/[.]0+/\<close>: a point, then all the zeros after it.\<close>

fun match_dot_zeros :: "string \<Rightarrow> nat option" where
  "match_dot_zeros [] = None"
| "match_dot_zeros (c # cs) =
     (if is_dot c \<and> match_leading_zeros cs
      then Some (1 + length (takeWhile is_zero cs))
      else match_dot_zeros cs)"

definition remove_underscores :: "string \<Rightarrow> string" where
  "remove_underscores s = filter (\<lambda>c. c \<noteq> CHR ''_'') s"

subsection \<open>The anchored patterns\<close>

text \<open>
  The four patterns of the constructor are anchored at both ends, so \<^verbatim>\<open>n.match(re)\<close> is
  a membership test. A pattern is a term of type \<open>rx\<close>, and the test runs the set of its
  partial derivatives over the string. A character class lists its characters; the flag
  \<^verbatim>\<open>i\<close> is written out as classes holding both cases.
\<close>

datatype rx = Cls "char list" | Eps | Seq rx rx | Alt rx rx | Star rx

fun nullable :: "rx \<Rightarrow> bool" where
  "nullable (Cls cs) = False"
| "nullable Eps = True"
| "nullable (Seq r s) = (nullable r \<and> nullable s)"
| "nullable (Alt r s) = (nullable r \<or> nullable s)"
| "nullable (Star r) = True"

fun pderiv :: "char \<Rightarrow> rx \<Rightarrow> rx list" where
  "pderiv c (Cls cs) = (if c \<in> set cs then [Eps] else [])"
| "pderiv c Eps = []"
| "pderiv c (Seq r s) =
     map (\<lambda>r'. Seq r' s) (pderiv c r) @ (if nullable r then pderiv c s else [])"
| "pderiv c (Alt r s) = pderiv c r @ pderiv c s"
| "pderiv c (Star r) = map (\<lambda>r'. Seq r' (Star r)) (pderiv c r)"

definition rx_step :: "rx list \<Rightarrow> char \<Rightarrow> rx list" where
  "rx_step rs c = remdups (concat (map (pderiv c) rs))"

definition rx_test :: "rx \<Rightarrow> string \<Rightarrow> bool" where
  "rx_test r s = list_ex nullable (foldl rx_step [r] s)"

text \<open>
  What the test decides: the language of a pattern, by the usual clauses. The lemma
  \<open>rx_test_lang\<close> below shows that \<open>rx_test r s\<close> holds exactly when \<open>s\<close> is in the language
  of \<open>r\<close>.
\<close>

definition conc :: "string set \<Rightarrow> string set \<Rightarrow> string set" where
  "conc A B = {u @ v | u v. u \<in> A \<and> v \<in> B}"

inductive_set star :: "string set \<Rightarrow> string set" for A :: "string set" where
  star_empty: "[] \<in> star A"
| star_step: "u \<in> A \<Longrightarrow> v \<in> star A \<Longrightarrow> u @ v \<in> star A"

fun lang :: "rx \<Rightarrow> string set" where
  "lang (Cls cs) = {[c] | c. c \<in> set cs}"
| "lang Eps = {[]}"
| "lang (Seq r s) = conc (lang r) (lang s)"
| "lang (Alt r s) = lang r \<union> lang s"
| "lang (Star r) = star (lang r)"

definition langs :: "rx list \<Rightarrow> string set" where
  "langs rs = (\<Union>r \<in> set rs. lang r)"

definition Opt :: "rx \<Rightarrow> rx" where
  "Opt r = Alt r Eps"

definition Plus :: "rx \<Rightarrow> rx" where
  "Plus r = Seq r (Star r)"

definition Lit :: "char \<Rightarrow> rx" where
  "Lit c = Cls [c]"

definition D09 :: rx where
  "D09 = Cls ''0123456789''"

definition D19 :: rx where
  "D19 = Cls ''123456789''"

text \<open>\<^verbatim>\<open>/^-?[0-9]+(?:_?[0-9]+)*(?:[.][0-9](_?[0-9]+)*)?$/\<close>\<close>

definition digitStrRegExp :: rx where
  "digitStrRegExp =
     Seq (Opt (Lit CHR ''-''))
    (Seq (Plus D09)
    (Seq (Star (Seq (Opt (Lit CHR ''_'')) (Plus D09)))
         (Opt (Seq (Lit CHR ''.'')
              (Seq D09
                   (Star (Seq (Opt (Lit CHR ''_'')) (Plus D09))))))))"

text \<open>\<^verbatim>\<open>/^-?[1-9][0-9]*[eE][-+]?[1-9][0-9]*$/\<close>\<close>

definition exponentRegExp :: rx where
  "exponentRegExp =
     Seq (Opt (Lit CHR ''-''))
    (Seq D19
    (Seq (Star D09)
    (Seq (Cls ''eE'')
    (Seq (Opt (Cls ''-+''))
    (Seq D19 (Star D09))))))"

text \<open>\<^verbatim>\<open>/^-?nan$/i\<close>\<close>

definition nanRegExp :: rx where
  "nanRegExp =
     Seq (Opt (Lit CHR ''-'')) (Seq (Cls ''nN'') (Seq (Cls ''aA'') (Cls ''nN'')))"

text \<open>\<^verbatim>\<open>/^-?inf(inity)?$/i\<close>\<close>

definition infRegExp :: rx where
  "infRegExp =
     Seq (Opt (Lit CHR ''-''))
    (Seq (Cls ''iI'') (Seq (Cls ''nN'') (Seq (Cls ''fF'')
         (Opt (Seq (Cls ''iI'') (Seq (Cls ''nN'') (Seq (Cls ''iI'')
              (Seq (Cls ''tT'') (Cls ''yY'')))))))))"

section \<open>common.mts\<close>

datatype RoundingMode =
    ROUNDING_MODE_CEILING
  | ROUNDING_MODE_FLOOR
  | ROUNDING_MODE_EXPAND
  | ROUNDING_MODE_TRUNCATE
  | ROUNDING_MODE_HALF_EVEN
  | ROUNDING_MODE_HALF_EXPAND
  | ROUNDING_MODE_HALF_CEILING
  | ROUNDING_MODE_HALF_FLOOR
  | ROUNDING_MODE_HALF_TRUNCATE

text \<open>countSignificantDigits(s), on a string.\<close>

function countSignificantDigits :: "string \<Rightarrow> int" where
  "countSignificantDigits s =
     (if match_minus s then countSignificantDigits (drop 1 s)
      else if match_zero_dot s then
        (case match_dot_zeros s of
           Some m \<Rightarrow> int (length s) - int m - 1
         | None \<Rightarrow> int (length s) - 2)
      else if match_dot s then int (length s) - 1
      else if trailing_zeros s > 0 then int (length s) - int (trailing_zeros s)
      else int (length s))"
  by pat_completeness auto
termination
  by (relation "measure length") (auto simp: match_minus_def split: list.splits)

declare countSignificantDigits.simps [simp del]

section \<open>digitString.mts\<close>

subsection \<open>roundIt\<close>

text \<open>
  The type \<^verbatim>\<open>RoundingMode\<close> has the nine modes only, so the \<^verbatim>\<open>default\<close> branch of the
  switch is not reached. The two digits are run-time values: the callers pass
  \<^verbatim>\<open>undefined\<close> and \<^verbatim>\<open>NaN\<close> as well.
\<close>

fun roundIt :: "bool \<Rightarrow> jsval \<Rightarrow> jsval \<Rightarrow> RoundingMode \<Rightarrow> jsval" where
  "roundIt isNegative digitToRound decidingDigit ROUNDING_MODE_CEILING =
     (if isNegative then digitToRound else js_plus1 digitToRound)"
| "roundIt isNegative digitToRound decidingDigit ROUNDING_MODE_FLOOR =
     (if isNegative then js_plus1 digitToRound else digitToRound)"
| "roundIt isNegative digitToRound decidingDigit ROUNDING_MODE_EXPAND =
     js_plus1 digitToRound"
| "roundIt isNegative digitToRound decidingDigit ROUNDING_MODE_TRUNCATE =
     digitToRound"
| "roundIt isNegative digitToRound decidingDigit ROUNDING_MODE_HALF_CEILING =
     (if js_ge decidingDigit 5 then
        (if isNegative then digitToRound else js_plus1 digitToRound)
      else digitToRound)"
| "roundIt isNegative digitToRound decidingDigit ROUNDING_MODE_HALF_FLOOR =
     (if js_eq decidingDigit 5 then
        (if isNegative then js_plus1 digitToRound else digitToRound)
      else if js_gt decidingDigit 5 then js_plus1 digitToRound
      else digitToRound)"
| "roundIt isNegative digitToRound decidingDigit ROUNDING_MODE_HALF_TRUNCATE =
     (if js_eq decidingDigit 5 then digitToRound
      else if js_gt decidingDigit 5 then js_plus1 digitToRound
      else digitToRound)"
| "roundIt isNegative digitToRound decidingDigit ROUNDING_MODE_HALF_EXPAND =
     (if js_ge decidingDigit 5 then js_plus1 digitToRound else digitToRound)"
| "roundIt isNegative digitToRound decidingDigit ROUNDING_MODE_HALF_EVEN =
     (if js_eq decidingDigit 5 then
        (if js_even digitToRound then digitToRound else js_plus1 digitToRound)
      else if js_gt decidingDigit 5 then js_plus1 digitToRound
      else digitToRound)"

text \<open>
  The rounding-mode table of the specification: for the sign \<open>s\<close> (true for negative),
  the kept digit \<open>d\<close> and the deciding digit \<open>r\<close>, whether the mode rounds up.
\<close>

fun table_rounds_up :: "RoundingMode \<Rightarrow> bool \<Rightarrow> int \<Rightarrow> int \<Rightarrow> bool" where
  "table_rounds_up ROUNDING_MODE_CEILING s d r = (\<not> s)"
| "table_rounds_up ROUNDING_MODE_FLOOR s d r = s"
| "table_rounds_up ROUNDING_MODE_EXPAND s d r = True"
| "table_rounds_up ROUNDING_MODE_TRUNCATE s d r = False"
| "table_rounds_up ROUNDING_MODE_HALF_EXPAND s d r = (r \<ge> 5)"
| "table_rounds_up ROUNDING_MODE_HALF_CEILING s d r = (r \<ge> 5 \<and> \<not> s)"
| "table_rounds_up ROUNDING_MODE_HALF_FLOOR s d r = (r > 5 \<or> (r = 5 \<and> s))"
| "table_rounds_up ROUNDING_MODE_HALF_TRUNCATE s d r = (r > 5)"
| "table_rounds_up ROUNDING_MODE_HALF_EVEN s d r = (r > 5 \<or> (r = 5 \<and> odd d))"

subsection \<open>DigitString\<close>

record DigitString =
  lhs :: "nat list"
  rhs :: "nat list"

definition new_DigitString :: "string \<Rightarrow> string \<Rightarrow> error + DigitString" where
  "new_DigitString l r =
     bindE (explodeDigits l) (\<lambda>dl.
     bindE (explodeDigits r) (\<lambda>dr.
     Inr \<lparr>lhs = dl, rhs = dr\<rparr>))"

text \<open>\<^verbatim>\<open>ds.join("")\<close> on an array of digits.\<close>

definition join_digits :: "nat list \<Rightarrow> string" where
  "join_digits ds = concat (map show_nat ds)"

definition DigitString_toString :: "DigitString \<Rightarrow> string" where
  "DigitString_toString d =
     (let renderedLhs = join_digits (lhs d);
          renderedRhs = join_digits (rhs d)
      in if renderedLhs = [] then ''0.'' @ renderedRhs
         else renderedLhs @ ''.'' @ renderedRhs)"

definition DigitString_round :: "DigitString \<Rightarrow> jsval \<Rightarrow> RoundingMode \<Rightarrow> error + DigitString" where
  "DigitString_round d finalDigit mode =
     (let (l, rest) = split_on is_dot (DigitString_toString d);
          newRhs = str_or_undefined (second_piece rest) @ ''0'';
          newFinalDigit = roundIt False finalDigit (parseInt (Some (charAt newRhs 0))) mode
      in new_DigitString l (drop 1 newRhs @ js_to_string newFinalDigit))"

definition DigitString_significand :: "DigitString \<Rightarrow> nat list" where
  "DigitString_significand d = lhs d @ rhs d"

definition DigitString_exponent :: "DigitString \<Rightarrow> int" where
  "DigitString_exponent d = int (length (lhs d))"

definition DigitString_countSignificantDigits :: "DigitString \<Rightarrow> int" where
  "DigitString_countSignificantDigits d = int (length (lhs d)) + int (length (rhs d))"

definition DigitString_isPowerOfTen :: "DigitString \<Rightarrow> bool" where
  "DigitString_isPowerOfTen d = (1 = length (lhs d) \<and> 1 = lhs d ! 0)"

definition DigitString_isInteger :: "DigitString \<Rightarrow> bool" where
  "DigitString_isInteger d = (DigitString_exponent d \<ge> 0)"

subsection \<open>Rational\<close>

text \<open>
  Modelled from the spec: the class \<^verbatim>\<open>Rational\<close> of \<^verbatim>\<open>rational.mts\<close>, which is not among the
  sources. An exact rational is a pair of arbitrary-precision integers, numerator and
  denominator; \<^verbatim>\<open>new Rational(p, q)\<close> is that pair.
\<close>

record Rational =
  numerator :: int
  denominator :: int

definition new_Rational :: "int \<Rightarrow> int \<Rightarrow> Rational" where
  "new_Rational p q = \<lparr>numerator = p, denominator = q\<rparr>"

text \<open>The rational number that a pair stands for.\<close>

definition Rational_value :: "Rational \<Rightarrow> rat" where
  "Rational_value r = of_int (numerator r) / of_int (denominator r)"

text \<open>
  Modelled from the spec: \<^verbatim>\<open>add\<close>, \<^verbatim>\<open>subtract\<close>, \<^verbatim>\<open>multiply\<close> and \<^verbatim>\<open>divide\<close> of the class
  \<^verbatim>\<open>Rational\<close>, "standard exact fraction arithmetic via cross-multiplication", and
  \<^verbatim>\<open>cmp\<close>, a "total order via cross-multiplication sign comparison". The denominators
  that \<^verbatim>\<open>DigitString.toRational\<close> builds are positive.
\<close>

definition Rational_add :: "Rational \<Rightarrow> Rational \<Rightarrow> Rational" where
  "Rational_add a b =
     new_Rational (numerator a * denominator b + numerator b * denominator a)
                  (denominator a * denominator b)"

definition Rational_subtract :: "Rational \<Rightarrow> Rational \<Rightarrow> Rational" where
  "Rational_subtract a b =
     new_Rational (numerator a * denominator b - numerator b * denominator a)
                  (denominator a * denominator b)"

definition Rational_multiply :: "Rational \<Rightarrow> Rational \<Rightarrow> Rational" where
  "Rational_multiply a b =
     new_Rational (numerator a * numerator b) (denominator a * denominator b)"

definition Rational_divide :: "Rational \<Rightarrow> Rational \<Rightarrow> Rational" where
  "Rational_divide a b =
     new_Rational (numerator a * denominator b) (denominator a * numerator b)"

definition Rational_cmp :: "Rational \<Rightarrow> Rational \<Rightarrow> int" where
  "Rational_cmp a b =
     (let l = numerator a * denominator b;
          r = numerator b * denominator a
      in if l < r then - 1 else if l = r then 0 else 1)"

subsection \<open>DigitString.toRational\<close>

definition DigitString_toRational :: "DigitString \<Rightarrow> error + Rational" where
  "DigitString_toRational d =
     (let exp = DigitString_exponent d
      in bindE (BigInt (join_digits (DigitString_significand d))) (\<lambda>sig.
         if DigitString_isPowerOfTen d then
           (if exp < 0 then
              bindE (BigInt (''1'' @ repeat0 (nat (0 - exp)))) (\<lambda>q. Inr (new_Rational 1 q))
            else if exp = 0 then Inr (new_Rational sig 1)
            else bindE (BigInt (''1'' @ repeat0 (nat exp))) (\<lambda>p. Inr (new_Rational p 1)))
         else if exp < 0 then Inr (new_Rational sig (1 ^ nat (0 - exp)))
         else if exp = 1 then
           bindE (BigInt (show_int sig @ ''0'')) (\<lambda>p. Inr (new_Rational p 1))
         else if sig = 0 then Inr (new_Rational 0 1)
         else Inr (new_Rational sig (10 ^ nat exp))))"

text \<open>
  The value that the specification asks of the conversion: the significand, the integer
  formed by the digits of both parts, times ten to the power of the exponent minus the
  number of significant digits.
\<close>

definition spec_exact_value :: "DigitString \<Rightarrow> rat" where
  "spec_exact_value d =
     of_nat (nat_of_digits (join_digits (DigitString_significand d)))
       * 10 powi (DigitString_exponent d - DigitString_countSignificantDigits d)"

section \<open>decimal128.mts\<close>

definition EXPONENT_MIN :: int where
  "EXPONENT_MIN = - 6143"

definition EXPONENT_MAX :: int where
  "EXPONENT_MAX = 6144"

definition MAX_SIGNIFICANT_DIGITS :: nat where
  "MAX_SIGNIFICANT_DIGITS = 34"

subsection \<open>significand and exponent of a string\<close>

function significand :: "string \<Rightarrow> string" where
  "significand s =
     (if match_minus s then significand (drop 1 s)
      else if match_zero_dot s then significand (drop 2 s)
      else if match_dot s then significand (remove_first_dot s)
      else if match_leading_zeros s then significand (strip_leading_zeros s)
      else if trailing_zeros s > 0 then significand (strip_trailing_zeros s)
      else s)"
  by pat_completeness auto
termination
proof (relation "measure length")
  show "wf (measure length)" by simp
next
  fix s :: string
  assume "match_minus s"
  then show "(drop 1 s, s) \<in> measure length"
    by (cases s) (auto simp: match_minus_def)
next
  fix s :: string
  assume "match_zero_dot s"
  then show "(drop 2 s, s) \<in> measure length"
    by (cases s) (auto simp: match_zero_dot_def)
next
  fix s :: string
  assume "match_dot s"
  then have "length (remove_first_dot s) < length s"
    by (induction s) (auto simp: match_dot_def)
  then show "(remove_first_dot s, s) \<in> measure length" by simp
next
  fix s :: string
  assume "match_leading_zeros s"
  then have "length (dropWhile is_zero s) < length s"
    by (cases s) (auto simp: match_leading_zeros_def intro: le_imp_less_Suc length_dropWhile_le)
  then show "(strip_leading_zeros s, s) \<in> measure length"
    by (simp add: strip_leading_zeros_def)
next
  fix s :: string
  assume "0 < trailing_zeros s"
  moreover have "takeWhile is_zero xs \<noteq> [] \<Longrightarrow> length (dropWhile is_zero xs) < length xs"
    for xs :: string
    by (cases xs) (auto split: if_splits intro: le_imp_less_Suc length_dropWhile_le)
  ultimately have "length (dropWhile is_zero (rev s)) < length (rev s)"
    unfolding trailing_zeros_def by blast
  then show "(strip_trailing_zeros s, s) \<in> measure length"
    by (simp add: strip_trailing_zeros_def)
qed

declare significand.simps [simp del]

text \<open>
  In \<open>exponent\<close>, \<^verbatim>\<open>s.split(".")[1]\<close> is read only when \<open>s\<close> has a point, so the second
  piece is there.
\<close>

function exponent :: "string \<Rightarrow> int" where
  "exponent s =
     (if match_minus s then exponent (drop 1 s)
      else if match_dot s then
        (case second_piece (snd (split_on is_dot s)) of
           Some r \<Rightarrow> 0 - int (length r)
         | None \<Rightarrow> 0)
      else if s = ''0'' then 0
      else if trailing_zeros s > 0 then int (trailing_zeros s)
      else 0)"
  by pat_completeness auto
termination
  by (relation "measure length") (auto simp: match_minus_def split: list.splits)

declare exponent.simps [simp del]

subsection \<open>Constructor data\<close>

record Decimal128 =
  isNaN :: bool
  isFinite :: bool
  digits :: DigitString
  isNegative :: bool

text \<open>The interface \<^verbatim>\<open>Decimal128Constructor\<close> has the fields of the class.\<close>

type_synonym Decimal128Constructor = Decimal128

definition isInteger :: "Decimal128Constructor \<Rightarrow> bool" where
  "isInteger x = (\<not> isNaN x \<and> isFinite x \<and> DigitString_exponent (digits x) \<ge> 0)"

definition validateConstructorData :: "Decimal128Constructor \<Rightarrow> error + unit" where
  "validateConstructorData x =
     (if isNaN x then Inr ()
      else
        let numSigDigits = DigitString_countSignificantDigits (digits x);
            exp = DigitString_exponent (digits x)
        in if isInteger x \<and> numSigDigits > int MAX_SIGNIFICANT_DIGITS then Inl IntegerTooLarge
           else if exp > EXPONENT_MAX then Inl ExponentTooBig
           else if exp < EXPONENT_MIN then Inl ExponentTooSmall
           else Inr ())"

definition handleNan :: "string \<Rightarrow> error + Decimal128Constructor" where
  "handleNan s =
     bindE (new_DigitString [] []) (\<lambda>ds.
     Inr \<lparr>isNaN = True, isFinite = False, digits = ds, isNegative = match_minus s\<rparr>)"

text \<open>
  In the last case \<^verbatim>\<open>parseInt\<close> gave \<^verbatim>\<open>NaN\<close>: every comparison is false, and
  \<^verbatim>\<open>substring\<close> reads \<^verbatim>\<open>NaN\<close> as 0. The limit of the engine on the length of a string
  (for \<^verbatim>\<open>repeat\<close>) is not modelled.
\<close>

definition convertExponentialStringToDecimalString :: "string \<Rightarrow> string" where
  "convertExponentialStringToDecimalString s =
     (let (l, rest) = split_on is_eE s;
          exp = parseInt (second_piece rest)
      in case exp of
           JNum e \<Rightarrow>
             if e < 0 then ''0.'' @ repeat0 (nat (\<bar>e\<bar> - 1)) @ remove_first_dot l
             else if 0 = e then l
             else if e \<ge> int (length l) then l @ repeat0 (nat (e - int (length l)))
             else take (nat e) l @ ''.'' @ drop (nat e) l
         | JNaN \<Rightarrow> ''.'' @ l
         | JUndefined \<Rightarrow> ''.'' @ l)"

definition handleDecimalNotation :: "string \<Rightarrow> error + Decimal128Constructor" where
  "handleDecimalNotation s =
     (let negative = match_minus s;
          withoutUnderscores =
            (if negative then drop 1 (remove_underscores s) else remove_underscores s);
          sg = significand withoutUnderscores;
          exp = exponent withoutUnderscores;
          numSigDigits = countSignificantDigits withoutUnderscores;
          isInt = (exp \<ge> 0);
          (l, rest) = split_on is_dot withoutUnderscores;
          r = second_piece rest
      in bindE (new_DigitString l (case r of None \<Rightarrow> [] | Some x \<Rightarrow> x)) (\<lambda>ds.
         bindE (if \<not> isInt \<and> numSigDigits > int MAX_SIGNIFICANT_DIGITS
                then DigitString_round ds
                       (parseInt (Some (charAt sg MAX_SIGNIFICANT_DIGITS)))
                       ROUNDING_MODE_HALF_EVEN
                else Inr ds) (\<lambda>ds'.
         Inr \<lparr>isNaN = False, isFinite = True, digits = ds', isNegative = negative\<rparr>)))"

definition handleExponentialNotation :: "string \<Rightarrow> error + Decimal128Constructor" where
  "handleExponentialNotation s =
     handleDecimalNotation (convertExponentialStringToDecimalString s)"

definition handleInfinity :: "string \<Rightarrow> error + Decimal128Constructor" where
  "handleInfinity s =
     bindE (new_DigitString [] []) (\<lambda>ds.
     Inr \<lparr>isNaN = False, isFinite = False, digits = ds, isNegative = match_minus s\<rparr>)"

definition ROUNDING_MODE_DEFAULT :: RoundingMode where
  "ROUNDING_MODE_DEFAULT = ROUNDING_MODE_HALF_EXPAND"

subsection \<open>The class Decimal128\<close>

definition classify :: "string \<Rightarrow> error + Decimal128Constructor" where
  "classify n =
     (if rx_test nanRegExp n then handleNan n
      else if rx_test exponentRegExp n then handleExponentialNotation n
      else if rx_test digitStrRegExp n then handleDecimalNotation n
      else if rx_test infRegExp n then handleInfinity n
      else Inl (IllegalNumberFormat n))"

definition new_Decimal128 :: "string \<Rightarrow> error + Decimal128" where
  "new_Decimal128 n =
     bindE (classify n) (\<lambda>data.
     bindE (validateConstructorData data) (\<lambda>u.
     Inr data))"

definition Decimal128_toRational :: "Decimal128 \<Rightarrow> error + Rational" where
  "Decimal128_toRational this = DigitString_toRational (digits this)"

definition Decimal128_toString :: "Decimal128 \<Rightarrow> string" where
  "Decimal128_toString this =
     (if isNaN this then ''NaN''
      else if \<not> isFinite this then (if isNegative this then ''-'' else []) @ ''Infinity''
      else DigitString_toString (digits this))"

definition Decimal128_isInteger :: "Decimal128 \<Rightarrow> bool" where
  "Decimal128_isInteger this =
     (\<not> isNaN this \<and> isFinite this \<and> DigitString_exponent (digits this) \<ge> 0)"

definition Decimal128_abs :: "Decimal128 \<Rightarrow> error + Decimal128" where
  "Decimal128_abs this =
     (if isNegative this then new_Decimal128 (drop 1 (Decimal128_toString this))
      else Inr this)"

text \<open>\<open>cmp\<close> returns \<open>-1\<close>, \<open>0\<close>, \<open>1\<close> or \<^verbatim>\<open>undefined\<close> (\<open>None\<close>).\<close>

definition Decimal128_cmp :: "Decimal128 \<Rightarrow> Decimal128 \<Rightarrow> error + int option" where
  "Decimal128_cmp this x =
     (if isNaN this \<or> isNaN x then Inr None
      else if \<not> isFinite this then
        (if \<not> isFinite x then
           (if isNegative this = isNegative x then Inr (Some 0)
            else Inr (Some (if isNegative this then - 1 else 1)))
         else if isNegative this then Inr (Some (- 1))
         else Inr (Some 1))
      else if \<not> isFinite x then Inr (Some (if isNegative x then 1 else - 1))
      else
        bindE (Decimal128_toRational this) (\<lambda>a.
        bindE (Decimal128_toRational x) (\<lambda>b.
        Inr (Some (Rational_cmp a b)))))"

definition Decimal128_isZero :: "Decimal128 \<Rightarrow> bool" where
  "Decimal128_isZero this =
     (\<not> isNaN this \<and> isFinite this \<and> DigitString_isInteger (digits this))"

text \<open>
  \<^verbatim>\<open>Rational.toDecimalPlaces\<close> is not among the sources, and the specification leaves its
  rounding open. It is the parameter \<open>toDecimalPlaces\<close> of every operation that calls
  it: any function from a rational and a number of digits to a string or an error.
\<close>

type_synonym toDecimalPlaces_fn = "Rational \<Rightarrow> nat \<Rightarrow> error + string"

definition Decimal128_add ::
    "toDecimalPlaces_fn \<Rightarrow> Decimal128 \<Rightarrow> Decimal128 \<Rightarrow> error + Decimal128" where
  "Decimal128_add toDecimalPlaces this x =
     (if isNaN this \<or> isNaN x then new_Decimal128 ''NaN''
      else if \<not> isFinite this then
        (if \<not> isFinite x then
           (if isNegative this = isNegative x then Inr this
            else new_Decimal128 ''NaN'')
         else Inr this)
      else if \<not> isFinite x then Inr x
      else
        bindE (Decimal128_toRational this) (\<lambda>a.
        bindE (Decimal128_toRational x) (\<lambda>b.
        bindE (toDecimalPlaces (Rational_add a b) (MAX_SIGNIFICANT_DIGITS + 1))
          new_Decimal128)))"

text \<open>
  The argument \<open>n\<close> of \<open>toDecimalPlaces\<close> is a JavaScript number. A finite number is a
  rational; \<open>JNonFinite\<close> stands for \<^verbatim>\<open>NaN\<close> and the two infinities.
  \<^verbatim>\<open>Number.isInteger\<close> holds of the finite numbers with no fractional part. Past that
  check \<open>n\<close> is an integer, and the comparisons and \<open>n - 1\<close> are exact.
\<close>

datatype jsnumber = JFinite rat | JNonFinite

fun Number_isInteger :: "jsnumber \<Rightarrow> bool" where
  "Number_isInteger (JFinite q) = (of_int \<lfloor>q\<rfloor> = q)"
| "Number_isInteger JNonFinite = False"

text \<open>\<open>truncate\<close>, \<open>floor\<close>, \<open>ceil\<close> and \<open>toDecimalPlaces\<close>.\<close>

definition Decimal128_truncate :: "Decimal128 \<Rightarrow> error + Decimal128" where
  "Decimal128_truncate this =
     (if isNaN this then Inr this
      else let (l, rest) = split_on is_dot (Decimal128_toString this)
           in new_Decimal128 l)"

definition Decimal128_floor :: "Decimal128 \<Rightarrow> error + Decimal128" where
  "Decimal128_floor this = Decimal128_truncate this"

definition Decimal128_ceil :: "toDecimalPlaces_fn \<Rightarrow> Decimal128 \<Rightarrow> error + Decimal128" where
  "Decimal128_ceil toDecimalPlaces this =
     (if Decimal128_isInteger this then Inr this
      else if isNegative this then Decimal128_truncate this
      else
        bindE (new_Decimal128 ''1'') (\<lambda>one.
        bindE (Decimal128_add toDecimalPlaces this one) Decimal128_truncate))"

definition Decimal128_toDecimalPlaces ::
    "Decimal128 \<Rightarrow> jsnumber \<Rightarrow> error + Decimal128" where
  "Decimal128_toDecimalPlaces this num =
     (if \<not> Number_isInteger num then Inl ArgumentNotInteger
      else
        case num of
          JNonFinite \<Rightarrow> Inl ArgumentNotInteger
        | JFinite q \<Rightarrow>
            let n = \<lfloor>q\<rfloor>
            in if n < 0 then Inl NegativeArgument
               else
                 let s = Decimal128_toString this;
                     (l, rest) = split_on is_dot s
                 in case second_piece rest of
                      None \<Rightarrow> new_Decimal128 l
                    | Some r \<Rightarrow>
                        if 0 = n then new_Decimal128 l
                        else if int (length r) \<le> n then new_Decimal128 s
                        else
                          let penultimateDigit =
                                parseInt (Some (charAt r (nat (n - 1))))
                          in new_Decimal128
                               (l @ ''.'' @ take (nat (n - 1)) r @
                                js_to_string (js_plus1 penultimateDigit)))"

definition Decimal128_negate :: "Decimal128 \<Rightarrow> error + Decimal128" where
  "Decimal128_negate this =
     (let s = Decimal128_toString this
      in if match_minus s then new_Decimal128 (drop 1 s)
         else new_Decimal128 (''-'' @ s))"

definition Decimal128_subtract ::
    "toDecimalPlaces_fn \<Rightarrow> Decimal128 \<Rightarrow> Decimal128 \<Rightarrow> error + Decimal128" where
  "Decimal128_subtract toDecimalPlaces this x =
     (if isNaN this \<or> isNaN x then new_Decimal128 ''NaN''
      else if \<not> isFinite this then
        (if \<not> isFinite x then
           (if isNegative this = isNegative x then new_Decimal128 ''NaN''
            else Inr this)
         else Inr this)
      else if \<not> isFinite x then Decimal128_negate x
      else
        bindE (Decimal128_toRational this) (\<lambda>a.
        bindE (Decimal128_toRational x) (\<lambda>b.
        bindE (toDecimalPlaces (Rational_subtract a b) (MAX_SIGNIFICANT_DIGITS + 1))
          new_Decimal128)))"

definition Decimal128_multiply ::
    "toDecimalPlaces_fn \<Rightarrow> Decimal128 \<Rightarrow> Decimal128 \<Rightarrow> error + Decimal128" where
  "Decimal128_multiply toDecimalPlaces this x =
     (if isNaN this \<or> isNaN x then new_Decimal128 ''NaN''
      else if \<not> isFinite this then
        (if Decimal128_isZero x then new_Decimal128 ''NaN''
         else if isNegative this = isNegative x then new_Decimal128 ''Infinity''
         else new_Decimal128 ''-Infinity'')
      else if \<not> isFinite x then
        (if Decimal128_isZero this then new_Decimal128 ''NaN''
         else if isNegative this = isNegative x then new_Decimal128 ''Infinity''
         else new_Decimal128 ''-Infinity'')
      else
        bindE (Decimal128_toRational this) (\<lambda>a.
        bindE (Decimal128_toRational x) (\<lambda>b.
        bindE (toDecimalPlaces (Rational_multiply a b) (MAX_SIGNIFICANT_DIGITS + 1))
          new_Decimal128)))"

definition Decimal128_divide ::
    "toDecimalPlaces_fn \<Rightarrow> Decimal128 \<Rightarrow> Decimal128 \<Rightarrow> error + Decimal128" where
  "Decimal128_divide toDecimalPlaces this x =
     (if isNaN this \<or> isNaN x then new_Decimal128 ''NaN''
      else if Decimal128_isZero x then new_Decimal128 ''NaN''
      else if \<not> isFinite this then
        (if \<not> isFinite x then new_Decimal128 ''NaN''
         else if isNegative this = isNegative x then new_Decimal128 ''Infinity''
         else if isNegative this then Inr this
         else new_Decimal128 ''-Infinity'')
      else if \<not> isFinite x then
        (if isNegative this = isNegative x then new_Decimal128 ''0''
         else new_Decimal128 ''-0'')
      else
        bindE (Decimal128_toRational this) (\<lambda>a.
        bindE (Decimal128_toRational x) (\<lambda>b.
        bindE (toDecimalPlaces (Rational_divide a b) (MAX_SIGNIFICANT_DIGITS + 1))
          new_Decimal128)))"

text \<open>
  The argument \<open>numDecimalDigits\<close> of \<open>round\<close> is a JavaScript number. An integer stands
  for it here: \<^verbatim>\<open>Number.isSafeInteger(numDecimalDigits + 1)\<close> lets no other number
  through. \<open>array_get xs i\<close> is the read \<^verbatim>\<open>xs[i]\<close>, \<^verbatim>\<open>undefined\<close> outside the array.
\<close>

definition isSafeInteger :: "int \<Rightarrow> bool" where
  "isSafeInteger n = (\<bar>n\<bar> \<le> 2 ^ 53 - 1)"

definition array_get :: "nat list \<Rightarrow> int \<Rightarrow> jsval" where
  "array_get xs i =
     (if 0 \<le> i \<and> i < int (length xs) then JNum (int (xs ! nat i)) else JUndefined)"

definition Decimal128_round ::
    "Decimal128 \<Rightarrow> int \<Rightarrow> RoundingMode \<Rightarrow> error + Decimal128" where
  "Decimal128_round this numDecimalDigits mode =
     (if \<not> isSafeInteger (numDecimalDigits + 1) then Inl NotSafeInteger
      else if numDecimalDigits < 0 then Inl NegativeDecimalDigits
      else if isNaN this then Inr this
      else if \<not> isFinite this then Inr this
      else if int (length (rhs (digits this))) < numDecimalDigits then Inr this
      else
        let decidingDigit = array_get (rhs (digits this)) numDecimalDigits
        in bindE (DigitString_round (digits this) decidingDigit mode) (\<lambda>rounded.
           new_Decimal128 (DigitString_toString rounded)))"

text \<open>
  \<open>remainder\<close> calls itself on the negated operands. Nothing in it bounds the depth of
  these calls, so it is a partial function: \<open>None\<close> is a computation that does not
  return.
\<close>

partial_function (option) Decimal128_remainder ::
    "toDecimalPlaces_fn \<Rightarrow> Decimal128 \<Rightarrow> Decimal128 \<Rightarrow> (error + Decimal128) option" where
  "Decimal128_remainder toDecimalPlaces this d =
     (if isNaN this \<or> isNaN d then Some (new_Decimal128 ''NaN'')
      else if isNegative this then
        (case Decimal128_negate this of
           Inl e \<Rightarrow> Some (Inl e)
         | Inr this' \<Rightarrow>
             Option.bind (Decimal128_remainder toDecimalPlaces this' d) (\<lambda>r.
               Some (bindE r Decimal128_negate)))
      else if isNegative d then
        (case Decimal128_negate d of
           Inl e \<Rightarrow> Some (Inl e)
         | Inr d' \<Rightarrow> Decimal128_remainder toDecimalPlaces this d')
      else if \<not> isFinite this then Some (new_Decimal128 ''NaN'')
      else if \<not> isFinite d then Some (Inr this)
      else
        Some (
          bindE (Decimal128_divide toDecimalPlaces this d) (\<lambda>q0.
          bindE (Decimal128_round q0 0 ROUNDING_MODE_DEFAULT) (\<lambda>q.
          bindE (Decimal128_multiply toDecimalPlaces d q) (\<lambda>p.
          bindE (Decimal128_subtract toDecimalPlaces this p) Decimal128_abs)))))"

declare Decimal128_remainder.simps [code]

definition Decimal128_reciprocal ::
    "toDecimalPlaces_fn \<Rightarrow> Decimal128 \<Rightarrow> error + Decimal128" where
  "Decimal128_reciprocal toDecimalPlaces this =
     bindE (new_Decimal128 ''1'') (\<lambda>one. Decimal128_divide toDecimalPlaces one this)"

text \<open>The loop of \<open>pow\<close>, on the variables \<open>result\<close> and \<open>i\<close>.\<close>

partial_function (option) pow_loop ::
    "toDecimalPlaces_fn \<Rightarrow> Decimal128 \<Rightarrow> Decimal128 \<Rightarrow> Decimal128 \<Rightarrow>
     Decimal128 \<Rightarrow> Decimal128 \<Rightarrow> (error + Decimal128) option" where
  "pow_loop toDecimalPlaces this n one result i =
     (case Decimal128_cmp i n of
        Inl e \<Rightarrow> Some (Inl e)
      | Inr c \<Rightarrow>
          if c = Some (- 1) then
            (case Decimal128_multiply toDecimalPlaces result this of
               Inl e \<Rightarrow> Some (Inl e)
             | Inr result' \<Rightarrow>
                 (case Decimal128_add toDecimalPlaces i one of
                    Inl e \<Rightarrow> Some (Inl e)
                  | Inr i' \<Rightarrow> pow_loop toDecimalPlaces this n one result' i'))
          else Some (Inr result))"

declare pow_loop.simps [code]

partial_function (option) Decimal128_pow ::
    "toDecimalPlaces_fn \<Rightarrow> Decimal128 \<Rightarrow> Decimal128 \<Rightarrow> (error + Decimal128) option" where
  "Decimal128_pow toDecimalPlaces this n =
     (if \<not> Decimal128_isInteger n then Some (Inl ExponentNotInteger)
      else if isNegative n then
        (case Decimal128_negate n of
           Inl e \<Rightarrow> Some (Inl e)
         | Inr n' \<Rightarrow>
             Option.bind (Decimal128_pow toDecimalPlaces this n') (\<lambda>r.
               Some (bindE r (Decimal128_reciprocal toDecimalPlaces))))
      else
        (case new_Decimal128 ''1'' of
           Inl e \<Rightarrow> Some (Inl e)
         | Inr one \<Rightarrow>
             (case new_Decimal128 ''0'' of
                Inl e \<Rightarrow> Some (Inl e)
              | Inr i \<Rightarrow> pow_loop toDecimalPlaces this n one one i)))"

declare Decimal128_pow.simps [code]

section \<open>Predicates of the statements\<close>

text \<open>
  The invariant of a digit sequence: both arrays hold digits 0 to 9 only.
\<close>

definition digits_ok :: "DigitString \<Rightarrow> bool" where
  "digits_ok d = (list_all (\<lambda>x. x < 10) (lhs d) \<and> list_all (\<lambda>x. x < 10) (rhs d))"

text \<open>
  An operation returns a not-a-number numeral: it does not throw, and the numeral it
  returns has \<open>isNaN\<close> set. For \<open>remainder\<close>, it also has to return.
\<close>

definition returns_NaN :: "error + Decimal128 \<Rightarrow> bool" where
  "returns_NaN r = (case r of Inl e \<Rightarrow> False | Inr v \<Rightarrow> isNaN v)"

definition completes_with_NaN :: "(error + Decimal128) option \<Rightarrow> bool" where
  "completes_with_NaN c = (case c of None \<Rightarrow> False | Some r \<Rightarrow> returns_NaN r)"

text \<open>
  One instance of the parameter \<open>toDecimalPlaces\<close>, for the closed examples below. None
  of them reaches a call of it.
\<close>

definition toDecimalPlaces_sample :: toDecimalPlaces_fn where
  "toDecimalPlaces_sample r n = Inr ''0''"

section \<open>Auxiliary facts\<close>

subsection \<open>The pattern test decides the language\<close>

lemma nullable_lang: "nullable r \<longleftrightarrow> [] \<in> lang r"
  by (induction r) (auto simp: conc_def intro: star.intros)

lemma conc_Cons:
  "c # w \<in> conc A B \<longleftrightarrow>
     ([] \<in> A \<and> c # w \<in> B) \<or> (\<exists>u v. w = u @ v \<and> c # u \<in> A \<and> v \<in> B)"
  by (auto simp: conc_def Cons_eq_append_conv)

lemma star_Cons_split:
  assumes "x \<in> star A" and "x = c # w"
  shows "\<exists>u v. w = u @ v \<and> c # u \<in> A \<and> v \<in> star A"
  using assms
proof (induction arbitrary: w rule: star.induct)
  case star_empty
  then show ?case by simp
next
  case (star_step u v)
  show ?case
  proof (cases u)
    case Nil
    with star_step show ?thesis by simp
  next
    case (Cons a u')
    with star_step.prems have "a = c" and "w = u' @ v" by simp_all
    with Cons star_step.hyps show ?thesis by blast
  qed
qed

lemma star_Cons:
  "c # w \<in> star A \<longleftrightarrow> (\<exists>u v. w = u @ v \<and> c # u \<in> A \<and> v \<in> star A)"
proof
  assume "c # w \<in> star A"
  then show "\<exists>u v. w = u @ v \<and> c # u \<in> A \<and> v \<in> star A"
    by (rule star_Cons_split) simp
next
  assume "\<exists>u v. w = u @ v \<and> c # u \<in> A \<and> v \<in> star A"
  then obtain u v where "w = u @ v" "c # u \<in> A" "v \<in> star A" by blast
  then show "c # w \<in> star A"
    using star_step [of "c # u" A v] by simp
qed

lemma pderiv_lang: "w \<in> langs (pderiv c r) \<longleftrightarrow> c # w \<in> lang r"
proof (induction r arbitrary: w)
  case (Cls cs)
  then show ?case by (auto simp: langs_def)
next
  case Eps
  then show ?case by (simp add: langs_def)
next
  case (Seq r s)
  have "w \<in> langs (pderiv c (Seq r s)) \<longleftrightarrow>
        (\<exists>u v. w = u @ v \<and> u \<in> langs (pderiv c r) \<and> v \<in> lang s)
        \<or> (nullable r \<and> w \<in> langs (pderiv c s))"
    by (auto simp: langs_def conc_def)
  then show ?case
    by (simp add: Seq.IH conc_Cons nullable_lang) blast
next
  case (Alt r s)
  have "w \<in> langs (pderiv c (Alt r s)) \<longleftrightarrow>
        w \<in> langs (pderiv c r) \<or> w \<in> langs (pderiv c s)"
    by (auto simp: langs_def)
  then show ?case by (simp add: Alt.IH)
next
  case (Star r)
  have "w \<in> langs (pderiv c (Star r)) \<longleftrightarrow>
        (\<exists>u v. w = u @ v \<and> u \<in> langs (pderiv c r) \<and> v \<in> star (lang r))"
    by (auto simp: langs_def conc_def)
  then show ?case by (simp add: Star.IH star_Cons)
qed

lemma rx_step_langs: "w \<in> langs (rx_step rs c) \<longleftrightarrow> c # w \<in> langs rs"
proof -
  have "w \<in> langs (rx_step rs c) \<longleftrightarrow> (\<exists>r \<in> set rs. w \<in> langs (pderiv c r))"
    by (auto simp: langs_def rx_step_def)
  also have "\<dots> \<longleftrightarrow> c # w \<in> langs rs"
    by (simp add: pderiv_lang) (simp add: langs_def)
  finally show ?thesis .
qed

lemma foldl_rx_step_langs:
  "list_ex nullable (foldl rx_step rs s) \<longleftrightarrow> s \<in> langs rs"
proof (induction s arbitrary: rs)
  case Nil
  then show ?case by (auto simp: list_ex_iff langs_def nullable_lang)
next
  case (Cons c s)
  then show ?case by (simp add: rx_step_langs)
qed

lemma rx_test_lang: "rx_test r s \<longleftrightarrow> s \<in> lang r"
  by (simp add: rx_test_def foldl_rx_step_langs) (simp add: langs_def)

subsection \<open>Errors and digits\<close>

lemma bindE_simps [simp]:
  "bindE (Inl e) f = Inl e"
  "bindE (Inr x) f = f x"
  by (simp_all add: bindE_def)

lemma bindE_eq_Inr:
  "bindE m f = Inr y \<longleftrightarrow> (\<exists>x. m = Inr x \<and> f x = Inr y)"
  by (cases m) simp_all

lemma bindE_eq_Inl:
  "bindE m f = Inl e \<longleftrightarrow> (m = Inl e \<or> (\<exists>x. m = Inr x \<and> f x = Inl e))"
  by (cases m) simp_all

lemma small_digit_cases:
  "d < 10 \<Longrightarrow> d = 0 \<or> d = 1 \<or> d = 2 \<or> d = 3 \<or> d = 4 \<or> d = 5 \<or> d = 6 \<or> d = 7 \<or> d = 8 \<or> d = (9::nat)"
  by arith

lemma integerCharToDigit_digit_char:
  assumes "d < 10"
  shows "integerCharToDigit (digit_char d) = Inr d"
  using small_digit_cases [OF assms]
  by (auto simp: digit_char_def integerCharToDigit_def)

lemma integerCharToDigit_Inr:
  "integerCharToDigit c = Inr d \<Longrightarrow> d < 10"
  by (auto simp: integerCharToDigit_def split: if_splits)

lemma integerCharToDigit_Inl:
  "integerCharToDigit c = Inl e \<Longrightarrow> e = NotADigit c"
  by (auto simp: integerCharToDigit_def split: if_splits)

lemma explodeDigits_Inr:
  "explodeDigits s = Inr ds \<Longrightarrow> list_all (\<lambda>x. x < 10) ds"
  by (induction s arbitrary: ds)
     (auto split: sum.splits dest: integerCharToDigit_Inr)

lemma explodeDigits_Inl:
  "explodeDigits s = Inl e \<Longrightarrow> \<exists>c. e = NotADigit c"
  by (induction s)
     (auto split: sum.splits dest: integerCharToDigit_Inl)

lemma explodeDigits_digits_append:
  "list_all (\<lambda>x. x < 10) ds \<Longrightarrow>
   explodeDigits (map digit_char ds @ t) =
     (case explodeDigits t of Inl e \<Rightarrow> Inl e | Inr ts \<Rightarrow> Inr (ds @ ts))"
  by (induction ds) (auto simp: integerCharToDigit_digit_char split: sum.splits)

lemma explodeDigits_digits:
  "list_all (\<lambda>x. x < 10) ds \<Longrightarrow> explodeDigits (map digit_char ds) = Inr ds"
  using explodeDigits_digits_append [of ds "[]"] by simp

lemma join_digits_small:
  "list_all (\<lambda>x. x < 10) ds \<Longrightarrow> join_digits ds = map digit_char ds"
  by (induction ds) (auto simp: join_digits_def show_nat.simps)

lemma digit_char_not_dot:
  assumes "d < 10"
  shows "\<not> is_dot (digit_char d)"
  using small_digit_cases [OF assms]
  by (auto simp: digit_char_def is_dot_def)

lemma split_on_no_sep:
  "list_all (\<lambda>c. \<not> p c) xs \<Longrightarrow> split_on p xs = (xs, [])"
  by (induction xs) auto

lemma split_on_one_sep:
  "list_all (\<lambda>c. \<not> p c) xs \<Longrightarrow> p c \<Longrightarrow> list_all (\<lambda>c. \<not> p c) ys \<Longrightarrow>
   split_on p (xs @ c # ys) = (xs, [ys])"
  by (induction xs) (auto simp: split_on_no_sep)

lemma roundIt_undefined:
  "roundIt b JUndefined v m = JUndefined \<or> roundIt b JUndefined v m = JNaN"
  by (cases m) auto

lemma new_DigitString_ok:
  "new_DigitString a b = Inr d \<Longrightarrow> digits_ok d"
  by (auto simp: new_DigitString_def digits_ok_def bindE_eq_Inr dest: explodeDigits_Inr)

lemma new_DigitString_Inl:
  "new_DigitString a b = Inl e \<Longrightarrow> \<exists>c. e = NotADigit c"
  by (auto simp: new_DigitString_def bindE_eq_Inl dest: explodeDigits_Inl)

lemma DigitString_round_ok:
  "DigitString_round d f m = Inr d' \<Longrightarrow> digits_ok d'"
  by (auto simp: DigitString_round_def Let_def split: prod.splits dest: new_DigitString_ok)

lemma DigitString_round_Inl:
  "DigitString_round d f m = Inl e \<Longrightarrow> \<exists>c. e = NotADigit c"
  by (auto simp: DigitString_round_def Let_def split: prod.splits dest: new_DigitString_Inl)

lemma handleDecimalNotation_ok:
  "handleDecimalNotation s = Inr x \<Longrightarrow> digits_ok (digits x) \<and> isFinite x \<and> \<not> isNaN x"
  by (auto simp: handleDecimalNotation_def Let_def bindE_eq_Inr
           split: prod.splits if_splits dest: new_DigitString_ok DigitString_round_ok)

lemma handleDecimalNotation_Inl:
  "handleDecimalNotation s = Inl e \<Longrightarrow> \<exists>c. e = NotADigit c"
  by (auto simp: handleDecimalNotation_def Let_def bindE_eq_Inl
           split: prod.splits if_splits dest: new_DigitString_Inl DigitString_round_Inl)

lemma classify_ok:
  "classify s = Inr x \<Longrightarrow> digits_ok (digits x)"
  by (auto simp: classify_def handleNan_def handleInfinity_def handleExponentialNotation_def
                 bindE_eq_Inr
           split: if_splits dest: new_DigitString_ok handleDecimalNotation_ok)

lemma classify_Inl:
  "classify s = Inl e \<Longrightarrow> (\<exists>c. e = NotADigit c) \<or> e = IllegalNumberFormat s"
  by (auto simp: classify_def handleNan_def handleInfinity_def handleExponentialNotation_def
                 bindE_eq_Inl
           split: if_splits dest: new_DigitString_Inl handleDecimalNotation_Inl)

lemma new_Decimal128_Inr:
  "new_Decimal128 s = Inr x \<Longrightarrow> classify s = Inr x \<and> validateConstructorData x = Inr ()"
  by (auto simp: new_Decimal128_def bindE_eq_Inr)

lemma validate_count:
  "validateConstructorData x = Inr () \<Longrightarrow> isFinite x \<Longrightarrow> \<not> isNaN x \<Longrightarrow>
   length (lhs (digits x)) + length (rhs (digits x)) \<le> 34"
  by (auto simp: validateConstructorData_def Let_def isInteger_def DigitString_exponent_def
        DigitString_countSignificantDigits_def MAX_SIGNIFICANT_DIGITS_def split: if_splits)

lemma validate_not_too_small:
  "validateConstructorData x \<noteq> Inl ExponentTooSmall"
  by (auto simp: validateConstructorData_def Let_def DigitString_exponent_def EXPONENT_MIN_def)

subsection \<open>Rendering and rounding a digit sequence\<close>

lemma join_digits_Nil: "join_digits [] = []"
  by (simp add: join_digits_def)

lemma not_dot_digits:
  "list_all (\<lambda>x. x < 10) ds \<Longrightarrow> list_all (\<lambda>c. \<not> is_dot c) (map digit_char ds)"
  by (induction ds) (auto simp: digit_char_not_dot)

lemma DigitString_toString_split:
  assumes "digits_ok d"
  shows "split_on is_dot (DigitString_toString d) =
           (if lhs d = [] then ''0'' else map digit_char (lhs d), [map digit_char (rhs d)])"
proof -
  from assms have l: "list_all (\<lambda>x. x < 10) (lhs d)" and r: "list_all (\<lambda>x. x < 10) (rhs d)"
    by (simp_all add: digits_ok_def)
  define L where "L = (if lhs d = [] then ''0'' else map digit_char (lhs d))"
  define R where "R = map digit_char (rhs d)"
  have L: "list_all (\<lambda>c. \<not> is_dot c) L"
    using not_dot_digits [OF l] by (simp add: L_def is_dot_def)
  have R: "list_all (\<lambda>c. \<not> is_dot c) R"
    using not_dot_digits [OF r] by (simp add: R_def)
  have "DigitString_toString d = L @ CHR ''.'' # R"
    using join_digits_small [OF l] join_digits_small [OF r]
    by (simp add: DigitString_toString_def L_def R_def)
  moreover have "split_on is_dot (L @ CHR ''.'' # R) = (L, [R])"
    by (rule split_on_one_sep [OF L _ R]) (simp add: is_dot_def)
  ultimately show ?thesis
    by (simp only: L_def R_def)
qed

lemma explode_lhs_string:
  assumes "list_all (\<lambda>x. x < 10) ds"
  shows "\<exists>ds'. explodeDigits (if ds = [] then ''0'' else map digit_char ds) = Inr ds'"
proof (cases "ds = []")
  case True
  then show ?thesis by (simp add: integerCharToDigit_def)
next
  case False
  then show ?thesis using explodeDigits_digits [OF assms] by simp
qed

lemma explode_then_letter:
  assumes "list_all (\<lambda>x. x < 10) ds" and "integerCharToDigit c = Inl (NotADigit c)"
  shows "explodeDigits (map digit_char ds @ c # t) = Inl (NotADigit c)"
  using assms by (simp add: explodeDigits_digits_append)

lemma DigitString_round_undefined:
  assumes "digits_ok d"
  shows "DigitString_round d JUndefined mode = Inl (NotADigit CHR ''N'')
       \<or> DigitString_round d JUndefined mode = Inl (NotADigit CHR ''u'')"
proof -
  from assms have r: "list_all (\<lambda>x. x < 10) (rhs d)" and l: "list_all (\<lambda>x. x < 10) (lhs d)"
    by (simp_all add: digits_ok_def)
  define R where "R = map digit_char (rhs d)"
  define L where "L = (if lhs d = [] then ''0'' else map digit_char (lhs d))"
  define v where "v = parseInt (Some (charAt (R @ ''0'') 0))"
  define t where "t = drop 1 (R @ ''0'')"
  define ds where "ds = drop 1 (rhs d @ [0])"
  have sp: "split_on is_dot (DigitString_toString d) = (L, [R])"
    using DigitString_toString_split [OF assms] by (simp add: L_def R_def)
  have rd: "DigitString_round d JUndefined mode =
            new_DigitString L (t @ js_to_string (roundIt False JUndefined v mode))"
    unfolding t_def v_def
    by (simp add: DigitString_round_def sp second_piece_def str_or_undefined_def)
  have "R @ ''0'' = map digit_char (rhs d @ [0])"
    by (simp add: R_def digit_char_def)
  then have t: "t = map digit_char ds"
    unfolding t_def ds_def by (simp only: drop_map)
  have ok: "list_all (\<lambda>x. x < 10) ds"
    unfolding ds_def using r by (cases "rhs d") simp_all
  obtain ds' where L: "explodeDigits L = Inr ds'"
    using explode_lhs_string [OF l] by (auto simp: L_def)
  have N: "integerCharToDigit CHR ''N'' = Inl (NotADigit CHR ''N'')"
    and u: "integerCharToDigit CHR ''u'' = Inl (NotADigit CHR ''u'')"
    by (simp_all add: integerCharToDigit_def)
  from roundIt_undefined [of False v mode] show ?thesis
  proof
    assume "roundIt False JUndefined v mode = JUndefined"
    then have "DigitString_round d JUndefined mode = Inl (NotADigit CHR ''u'')"
      using explode_then_letter [OF ok u, of "''ndefined''"]
      by (simp add: rd t new_DigitString_def L)
    then show ?thesis by simp
  next
    assume "roundIt False JUndefined v mode = JNaN"
    then have "DigitString_round d JUndefined mode = Inl (NotADigit CHR ''N'')"
      using explode_then_letter [OF ok N, of "''aN''"]
      by (simp add: rd t new_DigitString_def L)
    then show ?thesis by simp
  qed
qed

subsection \<open>Special values\<close>

lemma new_NaN:
  "new_Decimal128 ''NaN'' =
     Inr \<lparr>isNaN = True, isFinite = False, digits = \<lparr>lhs = [], rhs = []\<rparr>, isNegative = False\<rparr>"
  by code_simp

lemma new_minus_NaN:
  "new_Decimal128 ''-NaN'' =
     Inr \<lparr>isNaN = True, isFinite = False, digits = \<lparr>lhs = [], rhs = []\<rparr>, isNegative = True\<rparr>"
  by code_simp

lemma returns_NaN_new_NaN: "returns_NaN (new_Decimal128 ''NaN'')"
  by (simp add: new_NaN returns_NaN_def)

lemma negate_NaN: "isNaN x \<Longrightarrow> Decimal128_negate x = new_Decimal128 ''-NaN''"
  by (simp add: Decimal128_negate_def Decimal128_toString_def match_minus_def)

lemma new_1:
  "new_Decimal128 ''1'' =
     Inr \<lparr>isNaN = False, isFinite = True, digits = \<lparr>lhs = [1], rhs = []\<rparr>, isNegative = False\<rparr>"
  by code_simp

lemma split_NaN: "split_on is_dot ''NaN'' = (''NaN'', [])"
  by code_simp

lemma toString_NaN: "isNaN x \<Longrightarrow> Decimal128_toString x = ''NaN''"
  by (simp add: Decimal128_toString_def)

lemma truncate_NaN: "isNaN x \<Longrightarrow> Decimal128_truncate x = Inr x"
  by (simp add: Decimal128_truncate_def)

lemma add_NaN: "isNaN x \<or> isNaN y \<Longrightarrow> Decimal128_add T x y = new_Decimal128 ''NaN''"
  by (simp add: Decimal128_add_def)

lemma ceil_NaN: "isNaN x \<Longrightarrow> returns_NaN (Decimal128_ceil T x)"
  by (simp add: Decimal128_ceil_def Decimal128_isInteger_def truncate_NaN new_1 add_NaN
        new_NaN returns_NaN_def)

lemma toDecimalPlaces_NaN:
  "isNaN x \<Longrightarrow> 0 \<le> n \<Longrightarrow>
   Decimal128_toDecimalPlaces x (JFinite (of_int n)) = new_Decimal128 ''NaN''"
  by (simp add: Decimal128_toDecimalPlaces_def toString_NaN split_NaN second_piece_def
           del: split_on.simps)

lemma toDecimalPlaces_not_integer:
  "\<not> Number_isInteger p \<Longrightarrow> Decimal128_toDecimalPlaces x p = Inl ArgumentNotInteger"
  by (simp add: Decimal128_toDecimalPlaces_def)

lemma new_0:
  "new_Decimal128 ''0'' =
     Inr \<lparr>isNaN = False, isFinite = True, digits = \<lparr>lhs = [0], rhs = []\<rparr>, isNegative = False\<rparr>"
  by code_simp

lemma reciprocal_NaN: "isNaN x \<Longrightarrow> Decimal128_reciprocal T x = new_Decimal128 ''NaN''"
  by (simp add: Decimal128_reciprocal_def new_1 Decimal128_divide_def)

lemma remainder_NaN:
  "isNaN x \<or> isNaN y \<Longrightarrow> Decimal128_remainder T x y = Some (new_Decimal128 ''NaN'')"
  by (subst Decimal128_remainder.simps) simp

lemma pow_NaN_exponent:
  "isNaN n \<Longrightarrow> Decimal128_pow T x n = Some (Inl ExponentNotInteger)"
  by (subst Decimal128_pow.simps) (simp add: Decimal128_isInteger_def)

text \<open>
  \<open>isZero\<close> tests the exponent of the digit sequence, which is the length of the integer
  part: it holds of every finite numeral, so \<open>divide\<close> answers not-a-number for every
  finite divisor.
\<close>

lemma isZero_finite:
  "isFinite x \<Longrightarrow> \<not> isNaN x \<Longrightarrow> Decimal128_isZero x"
  by (simp add: Decimal128_isZero_def DigitString_isInteger_def DigitString_exponent_def)

lemma divide_finite_divisor:
  "\<not> isNaN a \<Longrightarrow> \<not> isNaN x \<Longrightarrow> isFinite x \<Longrightarrow>
   Decimal128_divide T a x = new_Decimal128 ''NaN''"
  by (simp add: Decimal128_divide_def isZero_finite)

text \<open>\<open>pow\<close> does not look at its base when the exponent is zero.\<close>

lemma pow_zero_exponent:
  "Decimal128_pow T x
     \<lparr>isNaN = False, isFinite = True, digits = \<lparr>lhs = [0], rhs = []\<rparr>, isNegative = False\<rparr>
   = Some (Inr \<lparr>isNaN = False, isFinite = True, digits = \<lparr>lhs = [1], rhs = []\<rparr>,
                isNegative = False\<rparr>)"
  by code_simp

text \<open>No mode rounds \<open>2.5\<close> to \<open>2\<close> or to \<open>3\<close>.\<close>

lemma round_2_5_any_mode:
  "Decimal128_round
     \<lparr>isNaN = False, isFinite = True, digits = \<lparr>lhs = [2], rhs = [5]\<rparr>, isNegative = False\<rparr>
     0 m
   = Inr \<lparr>isNaN = False, isFinite = True, digits = \<lparr>lhs = [2], rhs = [0, 6]\<rparr>,
          isNegative = False\<rparr>
   \<or> Decimal128_round
     \<lparr>isNaN = False, isFinite = True, digits = \<lparr>lhs = [2], rhs = [5]\<rparr>, isNegative = False\<rparr>
     0 m
   = Inr \<lparr>isNaN = False, isFinite = True, digits = \<lparr>lhs = [2], rhs = [0, 5]\<rparr>,
          isNegative = False\<rparr>"
  by (cases m; hypsubst; code_simp)

section \<open>The exact-rational conversion\<close>

text \<open>
  C1. The conversion \<open>toRational\<close> is to return the significand times ten to the power of
  the exponent minus the number of significant digits. On the digit sequence of the
  literal \<open>2.5\<close> (integer part \<open>[2]\<close>, fractional part \<open>[5]\<close>) that value is \<open>5/2\<close>, and
  \<open>toRational\<close> returns the pair \<open>(250, 1)\<close>, of value 250: the branch for an exponent
  of one appends a zero to the significand.
\<close>

theorem toRational_differs_from_exact_value:
  "new_Decimal128 ''2.5'' =
     Inr \<lparr>isNaN = False, isFinite = True, digits = \<lparr>lhs = [2], rhs = [5]\<rparr>, isNegative = False\<rparr>
   \<and> DigitString_toRational \<lparr>lhs = [2], rhs = [5]\<rparr> = Inr \<lparr>numerator = 250, denominator = 1\<rparr>
   \<and> Rational_value \<lparr>numerator = 250, denominator = 1\<rparr> = 250
   \<and> spec_exact_value \<lparr>lhs = [2], rhs = [5]\<rparr> = 5 / 2"
  by code_simp

section \<open>Rendering and parsing again\<close>

text \<open>
  C2. The string that \<open>toString\<close> gives for a finite numeral is to be accepted by the
  constructor, and is to start with a minus sign exactly for a negative numeral. The
  numeral of the literal \<open>5\<close> renders as \<open>5.\<close>, which the constructor rejects as an
  illegal number format; the numeral of \<open>-1.5\<close> renders as \<open>1.5\<close>, without its sign.
\<close>

theorem toString_output_rejected:
  "new_Decimal128 ''5'' =
     Inr \<lparr>isNaN = False, isFinite = True, digits = \<lparr>lhs = [5], rhs = []\<rparr>, isNegative = False\<rparr>
   \<and> Decimal128_toString
       \<lparr>isNaN = False, isFinite = True, digits = \<lparr>lhs = [5], rhs = []\<rparr>, isNegative = False\<rparr>
     = ''5.''
   \<and> new_Decimal128 ''5.'' = Inl (IllegalNumberFormat ''5.'')
   \<and> new_Decimal128 ''-1.5'' =
     Inr \<lparr>isNaN = False, isFinite = True, digits = \<lparr>lhs = [1], rhs = [5]\<rparr>, isNegative = True\<rparr>
   \<and> Decimal128_toString
       \<lparr>isNaN = False, isFinite = True, digits = \<lparr>lhs = [1], rhs = [5]\<rparr>, isNegative = True\<rparr>
     = ''1.5''"
  by code_simp

section \<open>Division\<close>

text \<open>
  C3. The quotient of the numerals of \<open>10\<close> and \<open>4\<close> is to be the finite numeral
  \<open>2.5\<close>. \<open>divide\<close> returns the not-a-number numeral, whatever \<open>toDecimalPlaces\<close> is:
  \<open>isZero\<close> holds of the divisor \<open>4\<close>.
\<close>

theorem divide_10_by_4_is_NaN:
  "new_Decimal128 ''10'' =
     Inr \<lparr>isNaN = False, isFinite = True, digits = \<lparr>lhs = [1, 0], rhs = []\<rparr>, isNegative = False\<rparr>
   \<and> new_Decimal128 ''4'' =
     Inr \<lparr>isNaN = False, isFinite = True, digits = \<lparr>lhs = [4], rhs = []\<rparr>, isNegative = False\<rparr>
   \<and> Decimal128_divide T
       \<lparr>isNaN = False, isFinite = True, digits = \<lparr>lhs = [1, 0], rhs = []\<rparr>, isNegative = False\<rparr>
       \<lparr>isNaN = False, isFinite = True, digits = \<lparr>lhs = [4], rhs = []\<rparr>, isNegative = False\<rparr>
     = Inr \<lparr>isNaN = True, isFinite = False, digits = \<lparr>lhs = [], rhs = []\<rparr>, isNegative = False\<rparr>"
  by code_simp

section \<open>Not-a-number operands\<close>

text \<open>
  C4, as amended. For every numeral \<open>x\<close> with \<open>isNaN\<close> set, of either sign, and every
  numeral \<open>y\<close>: \<open>negate\<close>, \<open>truncate\<close>, \<open>floor\<close>, \<open>ceil\<close> and \<open>reciprocal\<close> of \<open>x\<close>, and
  \<open>add\<close>, \<open>subtract\<close>, \<open>multiply\<close>, \<open>divide\<close> and \<open>remainder\<close> with \<open>x\<close> as either operand,
  complete without an error and return a not-a-number numeral; so does
  \<open>toDecimalPlaces(n)\<close> for every integer \<open>n\<close> that is not negative, while for a number
  that is no integer it throws its type error; \<open>round(n, mode)\<close> returns \<open>x\<close> for every
  integer \<open>n\<close> that is not negative and whose successor is a safe integer; \<open>abs\<close>
  returns \<open>x\<close> when \<open>x\<close> is not negative; \<open>pow\<close> with \<open>x\<close> as the exponent throws the
  invalid-argument error; and \<open>pow\<close> with \<open>x\<close> as the base and the numeral of \<open>0\<close> as the
  exponent returns the numeral of \<open>1\<close>.
\<close>

theorem NaN_operand_absorbed:
  assumes "isNaN x"
  shows "returns_NaN (Decimal128_negate x)
       \<and> returns_NaN (Decimal128_add T x y) \<and> returns_NaN (Decimal128_add T y x)
       \<and> returns_NaN (Decimal128_subtract T x y) \<and> returns_NaN (Decimal128_subtract T y x)
       \<and> returns_NaN (Decimal128_multiply T x y) \<and> returns_NaN (Decimal128_multiply T y x)
       \<and> returns_NaN (Decimal128_divide T x y) \<and> returns_NaN (Decimal128_divide T y x)
       \<and> completes_with_NaN (Decimal128_remainder T x y)
       \<and> completes_with_NaN (Decimal128_remainder T y x)
       \<and> returns_NaN (Decimal128_truncate x) \<and> returns_NaN (Decimal128_floor x)
       \<and> returns_NaN (Decimal128_ceil T x) \<and> returns_NaN (Decimal128_reciprocal T x)
       \<and> (0 \<le> n \<longrightarrow> returns_NaN (Decimal128_toDecimalPlaces x (JFinite (of_int n))))
       \<and> (\<not> Number_isInteger p \<longrightarrow>
            Decimal128_toDecimalPlaces x p = Inl ArgumentNotInteger)
       \<and> (0 \<le> n \<and> isSafeInteger (n + 1) \<longrightarrow> Decimal128_round x n m = Inr x)
       \<and> (\<not> isNegative x \<longrightarrow> Decimal128_abs x = Inr x)
       \<and> Decimal128_pow T y x = Some (Inl ExponentNotInteger)
       \<and> Decimal128_pow T x
            \<lparr>isNaN = False, isFinite = True, digits = \<lparr>lhs = [0], rhs = []\<rparr>,
               isNegative = False\<rparr>
          = Some (Inr \<lparr>isNaN = False, isFinite = True, digits = \<lparr>lhs = [1], rhs = []\<rparr>,
                       isNegative = False\<rparr>)"
proof -
  have "returns_NaN (Decimal128_negate x)"
    using assms by (simp add: negate_NaN new_minus_NaN returns_NaN_def)
  moreover have "returns_NaN (Decimal128_add T x y)" "returns_NaN (Decimal128_add T y x)"
    using assms by (simp_all add: Decimal128_add_def returns_NaN_new_NaN)
  moreover have "returns_NaN (Decimal128_subtract T x y)" "returns_NaN (Decimal128_subtract T y x)"
    using assms by (simp_all add: Decimal128_subtract_def returns_NaN_new_NaN)
  moreover have "returns_NaN (Decimal128_multiply T x y)" "returns_NaN (Decimal128_multiply T y x)"
    using assms by (simp_all add: Decimal128_multiply_def returns_NaN_new_NaN)
  moreover have "returns_NaN (Decimal128_divide T x y)" "returns_NaN (Decimal128_divide T y x)"
    using assms by (simp_all add: Decimal128_divide_def returns_NaN_new_NaN)
  moreover have "completes_with_NaN (Decimal128_remainder T x y)"
    "completes_with_NaN (Decimal128_remainder T y x)"
    using assms by (simp_all add: remainder_NaN completes_with_NaN_def returns_NaN_new_NaN)
  moreover have "returns_NaN (Decimal128_truncate x)" "returns_NaN (Decimal128_floor x)"
    using assms by (simp_all add: Decimal128_floor_def truncate_NaN returns_NaN_def)
  moreover have "returns_NaN (Decimal128_ceil T x)"
    using assms by (rule ceil_NaN)
  moreover have "returns_NaN (Decimal128_reciprocal T x)"
    using assms by (simp add: reciprocal_NaN returns_NaN_new_NaN)
  moreover have "0 \<le> n \<longrightarrow> returns_NaN (Decimal128_toDecimalPlaces x (JFinite (of_int n)))"
    using assms by (simp add: toDecimalPlaces_NaN returns_NaN_new_NaN)
  moreover have "\<not> Number_isInteger p \<longrightarrow>
      Decimal128_toDecimalPlaces x p = Inl ArgumentNotInteger"
    by (simp add: toDecimalPlaces_not_integer)
  moreover have "0 \<le> n \<and> isSafeInteger (n + 1) \<longrightarrow> Decimal128_round x n m = Inr x"
    using assms by (simp add: Decimal128_round_def)
  moreover have "\<not> isNegative x \<longrightarrow> Decimal128_abs x = Inr x"
    by (simp add: Decimal128_abs_def)
  moreover have "Decimal128_pow T y x = Some (Inl ExponentNotInteger)"
    using assms by (rule pow_NaN_exponent)
  moreover have "Decimal128_pow T x
      \<lparr>isNaN = False, isFinite = True, digits = \<lparr>lhs = [0], rhs = []\<rparr>, isNegative = False\<rparr>
    = Some (Inr \<lparr>isNaN = False, isFinite = True, digits = \<lparr>lhs = [1], rhs = []\<rparr>,
                 isNegative = False\<rparr>)"
    by (rule pow_zero_exponent)
  ultimately show ?thesis by blast
qed

theorem NaN_operand_absorbed_witness:
  "isNaN \<lparr>isNaN = True, isFinite = False, digits = \<lparr>lhs = [], rhs = []\<rparr>, isNegative = False\<rparr>
   \<and> (0::int) \<le> 2 \<and> isSafeInteger (2 + 1)
   \<and> \<not> Number_isInteger (JFinite (3 / 2))
   \<and> \<not> isNegative
        \<lparr>isNaN = True, isFinite = False, digits = \<lparr>lhs = [], rhs = []\<rparr>, isNegative = False\<rparr>
   \<and> returns_NaN (Decimal128_negate
        \<lparr>isNaN = True, isFinite = False, digits = \<lparr>lhs = [], rhs = []\<rparr>, isNegative = False\<rparr>)
   \<and> returns_NaN (Decimal128_divide toDecimalPlaces_sample
        \<lparr>isNaN = False, isFinite = True, digits = \<lparr>lhs = [3], rhs = []\<rparr>, isNegative = False\<rparr>
        \<lparr>isNaN = True, isFinite = False, digits = \<lparr>lhs = [], rhs = []\<rparr>, isNegative = False\<rparr>)
   \<and> completes_with_NaN (Decimal128_remainder toDecimalPlaces_sample
        \<lparr>isNaN = True, isFinite = False, digits = \<lparr>lhs = [], rhs = []\<rparr>, isNegative = False\<rparr>
        \<lparr>isNaN = False, isFinite = True, digits = \<lparr>lhs = [3], rhs = []\<rparr>, isNegative = False\<rparr>)
   \<and> returns_NaN (Decimal128_toDecimalPlaces
        \<lparr>isNaN = True, isFinite = False, digits = \<lparr>lhs = [], rhs = []\<rparr>, isNegative = False\<rparr>
        (JFinite (of_int 2)))
   \<and> Decimal128_toDecimalPlaces
        \<lparr>isNaN = True, isFinite = False, digits = \<lparr>lhs = [], rhs = []\<rparr>, isNegative = False\<rparr>
        (JFinite (3 / 2)) = Inl ArgumentNotInteger
   \<and> Decimal128_round
        \<lparr>isNaN = True, isFinite = False, digits = \<lparr>lhs = [], rhs = []\<rparr>, isNegative = False\<rparr>
        2 ROUNDING_MODE_HALF_EXPAND =
       Inr \<lparr>isNaN = True, isFinite = False, digits = \<lparr>lhs = [], rhs = []\<rparr>, isNegative = False\<rparr>
   \<and> Decimal128_abs
        \<lparr>isNaN = True, isFinite = False, digits = \<lparr>lhs = [], rhs = []\<rparr>, isNegative = False\<rparr> =
       Inr \<lparr>isNaN = True, isFinite = False, digits = \<lparr>lhs = [], rhs = []\<rparr>, isNegative = False\<rparr>
   \<and> Decimal128_pow toDecimalPlaces_sample
        \<lparr>isNaN = True, isFinite = False, digits = \<lparr>lhs = [], rhs = []\<rparr>, isNegative = False\<rparr>
        \<lparr>isNaN = False, isFinite = True, digits = \<lparr>lhs = [0], rhs = []\<rparr>, isNegative = False\<rparr>
       = Some (Inr \<lparr>isNaN = False, isFinite = True, digits = \<lparr>lhs = [1], rhs = []\<rparr>,
                    isNegative = False\<rparr>)"
proof -
  have frac: "\<not> Number_isInteger (JFinite (3 / 2))"
    by code_simp
  show ?thesis
    using frac NaN_operand_absorbed
      [where x = "\<lparr>isNaN = True, isFinite = False, digits = \<lparr>lhs = [], rhs = []\<rparr>,
                    isNegative = False\<rparr>"
         and T = toDecimalPlaces_sample
         and y = "\<lparr>isNaN = False, isFinite = True, digits = \<lparr>lhs = [3], rhs = []\<rparr>,
                    isNegative = False\<rparr>"
         and n = 2 and m = ROUNDING_MODE_HALF_EXPAND and p = "JFinite (3 / 2)"]
    by (simp add: isSafeInteger_def)
qed

text \<open>
  C4, as stated, fails: on the not-a-number numeral, \<open>round\<close> with \<open>-1\<close> digits throws
  the range error of its argument check, which comes before the test for not-a-number;
  \<open>pow\<close> with a not-a-number exponent throws the type error of its check for an integer
  exponent; and not-a-number to the power zero is one.
\<close>

theorem NaN_operand_not_always_absorbed:
  "Decimal128_round
     \<lparr>isNaN = True, isFinite = False, digits = \<lparr>lhs = [], rhs = []\<rparr>, isNegative = False\<rparr>
     (- 1) ROUNDING_MODE_HALF_EXPAND = Inl NegativeDecimalDigits
   \<and> Decimal128_pow toDecimalPlaces_sample
       \<lparr>isNaN = False, isFinite = True, digits = \<lparr>lhs = [2], rhs = []\<rparr>, isNegative = False\<rparr>
       \<lparr>isNaN = True, isFinite = False, digits = \<lparr>lhs = [], rhs = []\<rparr>, isNegative = False\<rparr>
     = Some (Inl ExponentNotInteger)
   \<and> Decimal128_pow toDecimalPlaces_sample
       \<lparr>isNaN = True, isFinite = False, digits = \<lparr>lhs = [], rhs = []\<rparr>, isNegative = False\<rparr>
       \<lparr>isNaN = False, isFinite = True, digits = \<lparr>lhs = [0], rhs = []\<rparr>, isNegative = False\<rparr>
     = Some (Inr \<lparr>isNaN = False, isFinite = True, digits = \<lparr>lhs = [1], rhs = []\<rparr>,
                  isNegative = False\<rparr>)"
  by code_simp

section \<open>Literals of 35 digits\<close>

text \<open>
  C5. A literal of 35 digits with no point is to be rejected, and a literal of 35
  significant digits with a point is to be accepted and rounded to 34 digits. The
  constructor rejects both with the range error for an integer that is too large: the
  rounding step turns the 35 digits of \<open>1234567890123456789012345678901234.5\<close> into 36,
  and the validation counts every numeral as an integer. The same happens to a literal
  with its 35 significant digits after \<open>0.\<close>.
\<close>

theorem non_integer_35_digits_rejected:
  "new_Decimal128 ''1234567890123456789012345678901234.5'' = Inl IntegerTooLarge
   \<and> new_Decimal128 ''0.12345678901234567890123456789012345'' = Inl IntegerTooLarge
   \<and> new_Decimal128 ''12345678901234567890123456789012345'' = Inl IntegerTooLarge"
  by code_simp

section \<open>Rounding 2.5 to no decimal places\<close>

text \<open>
  C6. \<open>round(0, mode)\<close> on the numeral of \<open>2.5\<close> is to compare equal to \<open>3\<close> under
  half-expand and to \<open>2\<close> under truncate. It returns the numeral with the digits
  \<open>2.06\<close> under half-expand and \<open>2.05\<close> under truncate, and \<open>cmp\<close> of these with
  the numerals of \<open>3\<close> and of \<open>2\<close> is 1, not 0.
\<close>

theorem round_2_5_gives_2_06:
  "new_Decimal128 ''2.5'' =
     Inr \<lparr>isNaN = False, isFinite = True, digits = \<lparr>lhs = [2], rhs = [5]\<rparr>, isNegative = False\<rparr>
   \<and> Decimal128_round
       \<lparr>isNaN = False, isFinite = True, digits = \<lparr>lhs = [2], rhs = [5]\<rparr>, isNegative = False\<rparr>
       0 ROUNDING_MODE_HALF_EXPAND
     = Inr \<lparr>isNaN = False, isFinite = True, digits = \<lparr>lhs = [2], rhs = [0, 6]\<rparr>,
            isNegative = False\<rparr>
   \<and> new_Decimal128 ''3'' =
     Inr \<lparr>isNaN = False, isFinite = True, digits = \<lparr>lhs = [3], rhs = []\<rparr>, isNegative = False\<rparr>
   \<and> Decimal128_cmp
       \<lparr>isNaN = False, isFinite = True, digits = \<lparr>lhs = [2], rhs = [0, 6]\<rparr>, isNegative = False\<rparr>
       \<lparr>isNaN = False, isFinite = True, digits = \<lparr>lhs = [3], rhs = []\<rparr>, isNegative = False\<rparr>
     = Inr (Some 1)
   \<and> Decimal128_round
       \<lparr>isNaN = False, isFinite = True, digits = \<lparr>lhs = [2], rhs = [5]\<rparr>, isNegative = False\<rparr>
       0 ROUNDING_MODE_TRUNCATE
     = Inr \<lparr>isNaN = False, isFinite = True, digits = \<lparr>lhs = [2], rhs = [0, 5]\<rparr>,
            isNegative = False\<rparr>
   \<and> new_Decimal128 ''2'' =
     Inr \<lparr>isNaN = False, isFinite = True, digits = \<lparr>lhs = [2], rhs = []\<rparr>, isNegative = False\<rparr>
   \<and> Decimal128_cmp
       \<lparr>isNaN = False, isFinite = True, digits = \<lparr>lhs = [2], rhs = [0, 5]\<rparr>, isNegative = False\<rparr>
       \<lparr>isNaN = False, isFinite = True, digits = \<lparr>lhs = [2], rhs = []\<rparr>, isNegative = False\<rparr>
     = Inr (Some 1)"
  by code_simp

section \<open>The absolute value\<close>

text \<open>
  C7. \<open>abs\<close> is to complete on every numeral and to clear the sign. On the negative
  not-a-number numeral and on the numeral of \<open>-1.5\<close> it throws the syntax error of the
  constructor: it drops the first character of \<open>toString\<close>, which has no minus sign
  there, and parses \<open>aN\<close> and \<open>.5\<close>. On the numeral of \<open>-12.5\<close> it returns the
  numeral of \<open>2.5\<close>.
\<close>

theorem abs_of_negative_raises:
  "new_Decimal128 ''-NaN'' =
     Inr \<lparr>isNaN = True, isFinite = False, digits = \<lparr>lhs = [], rhs = []\<rparr>, isNegative = True\<rparr>
   \<and> Decimal128_abs
       \<lparr>isNaN = True, isFinite = False, digits = \<lparr>lhs = [], rhs = []\<rparr>, isNegative = True\<rparr>
     = Inl (IllegalNumberFormat ''aN'')
   \<and> new_Decimal128 ''-1.5'' =
     Inr \<lparr>isNaN = False, isFinite = True, digits = \<lparr>lhs = [1], rhs = [5]\<rparr>, isNegative = True\<rparr>
   \<and> Decimal128_abs
       \<lparr>isNaN = False, isFinite = True, digits = \<lparr>lhs = [1], rhs = [5]\<rparr>, isNegative = True\<rparr>
     = Inl (IllegalNumberFormat ''.5'')
   \<and> new_Decimal128 ''-12.5'' =
     Inr \<lparr>isNaN = False, isFinite = True, digits = \<lparr>lhs = [1, 2], rhs = [5]\<rparr>,
          isNegative = True\<rparr>
   \<and> Decimal128_abs
       \<lparr>isNaN = False, isFinite = True, digits = \<lparr>lhs = [1, 2], rhs = [5]\<rparr>,
          isNegative = True\<rparr>
     = Inr \<lparr>isNaN = False, isFinite = True, digits = \<lparr>lhs = [2], rhs = [5]\<rparr>,
            isNegative = False\<rparr>"
  by code_simp

section \<open>The rounding step\<close>

text \<open>
  C8. For every sign, every kept digit \<open>d\<close> and deciding digit \<open>r\<close> in 0..9 and each of
  the nine modes, \<open>roundIt\<close> returns \<open>d + 1\<close> exactly when the table of the specification
  says that the mode rounds up, and \<open>d\<close> otherwise.
\<close>

theorem roundIt_table:
  assumes "0 \<le> d" "d \<le> 9" "0 \<le> r" "r \<le> 9"
  shows "roundIt s (JNum d) (JNum r) m =
           JNum (if table_rounds_up m s d r then d + 1 else d)"
  by (cases m) (auto simp: odd_iff_mod_2_eq_one)

theorem roundIt_table_witness:
  "(0::int) \<le> 7 \<and> (7::int) \<le> 9 \<and> (0::int) \<le> 5 \<and> (5::int) \<le> 9
   \<and> roundIt False (JNum 7) (JNum 5) ROUNDING_MODE_HALF_EVEN = JNum 8
   \<and> roundIt True (JNum 7) (JNum 5) ROUNDING_MODE_HALF_FLOOR = JNum 8
   \<and> roundIt True (JNum 7) (JNum 5) ROUNDING_MODE_CEILING = JNum 7"
  using roundIt_table [of 7 5 False ROUNDING_MODE_HALF_EVEN]
    roundIt_table [of 7 5 True ROUNDING_MODE_HALF_FLOOR]
    roundIt_table [of 7 5 True ROUNDING_MODE_CEILING]
  by simp

section \<open>The exponent of a constructed numeral\<close>

text \<open>
  C9. Every finite numeral that the constructor returns has a non-negative exponent
  (the length of its integer part), so \<open>isInteger\<close> holds of it; and the constructor
  never throws the error for an exponent that is too small.
\<close>

theorem constructed_exponent_nonnegative:
  "(new_Decimal128 s = Inr x \<and> isFinite x \<and> \<not> isNaN x \<longrightarrow>
      0 \<le> DigitString_exponent (digits x) \<and> Decimal128_isInteger x)
   \<and> new_Decimal128 s \<noteq> Inl ExponentTooSmall"
proof -
  have "new_Decimal128 s \<noteq> Inl ExponentTooSmall"
  proof
    assume "new_Decimal128 s = Inl ExponentTooSmall"
    then consider "classify s = Inl ExponentTooSmall"
      | y where "validateConstructorData y = Inl ExponentTooSmall"
      by (auto simp: new_Decimal128_def bindE_eq_Inl)
    then show False
    proof cases
      case 1
      then show False using classify_Inl [OF 1] by auto
    next
      case 2
      then show False using validate_not_too_small by blast
    qed
  qed
  then show ?thesis
    by (simp add: Decimal128_isInteger_def DigitString_exponent_def)
qed

theorem constructed_exponent_nonnegative_witness:
  "new_Decimal128 ''2.5'' =
     Inr \<lparr>isNaN = False, isFinite = True, digits = \<lparr>lhs = [2], rhs = [5]\<rparr>, isNegative = False\<rparr>
   \<and> 0 \<le> DigitString_exponent \<lparr>lhs = [2], rhs = [5]\<rparr>
   \<and> Decimal128_isInteger
       \<lparr>isNaN = False, isFinite = True, digits = \<lparr>lhs = [2], rhs = [5]\<rparr>, isNegative = False\<rparr>"
proof -
  have c: "new_Decimal128 ''2.5'' =
     Inr \<lparr>isNaN = False, isFinite = True, digits = \<lparr>lhs = [2], rhs = [5]\<rparr>, isNegative = False\<rparr>"
    by code_simp
  show ?thesis
    using c constructed_exponent_nonnegative [of "''2.5''"
      "\<lparr>isNaN = False, isFinite = True, digits = \<lparr>lhs = [2], rhs = [5]\<rparr>, isNegative = False\<rparr>"]
    by simp
qed

section \<open>Rounding to all the fractional digits\<close>

text \<open>
  C10. For every finite numeral that the constructor returns, with \<open>n\<close> digits in its
  fractional part, \<open>round(n, mode)\<close> throws in every mode: the deciding digit is read
  one place past the array, the rounding step gives \<^verbatim>\<open>undefined\<close> or \<^verbatim>\<open>NaN\<close>, and the
  digit sequence built from its rendering stops at the letter \<open>u\<close> or \<open>N\<close>.
\<close>

theorem round_to_all_fraction_digits_raises:
  assumes "new_Decimal128 s = Inr x" and "isFinite x" and "\<not> isNaN x"
    and "n = int (length (rhs (digits x)))"
  shows "Decimal128_round x n mode = Inl (NotADigit CHR ''N'')
       \<or> Decimal128_round x n mode = Inl (NotADigit CHR ''u'')"
proof -
  from assms(1) have c: "classify s = Inr x" and v: "validateConstructorData x = Inr ()"
    by (simp_all add: new_Decimal128_Inr)
  have ok: "digits_ok (digits x)" using classify_ok [OF c] .
  have "length (lhs (digits x)) + length (rhs (digits x)) \<le> 34"
    using validate_count [OF v assms(2,3)] .
  then have safe: "isSafeInteger (n + 1)" and "0 \<le> n"
    using assms(4) by (simp_all add: isSafeInteger_def)
  have "array_get (rhs (digits x)) n = JUndefined"
    using assms(4) by (simp add: array_get_def)
  then have "Decimal128_round x n mode =
      bindE (DigitString_round (digits x) JUndefined mode)
        (\<lambda>rounded. new_Decimal128 (DigitString_toString rounded))"
    using safe \<open>0 \<le> n\<close> assms(2,3,4) by (simp add: Decimal128_round_def)
  then show ?thesis
    using DigitString_round_undefined [OF ok, of mode] by auto
qed

theorem round_to_all_fraction_digits_raises_witness:
  "new_Decimal128 ''7'' =
     Inr \<lparr>isNaN = False, isFinite = True, digits = \<lparr>lhs = [7], rhs = []\<rparr>, isNegative = False\<rparr>
   \<and> (0::int) = int (length (rhs \<lparr>lhs = [7], rhs = []\<rparr>))
   \<and> (Decimal128_round
        \<lparr>isNaN = False, isFinite = True, digits = \<lparr>lhs = [7], rhs = []\<rparr>, isNegative = False\<rparr>
        0 ROUNDING_MODE_DEFAULT = Inl (NotADigit CHR ''N'')
      \<or> Decimal128_round
        \<lparr>isNaN = False, isFinite = True, digits = \<lparr>lhs = [7], rhs = []\<rparr>, isNegative = False\<rparr>
        0 ROUNDING_MODE_DEFAULT = Inl (NotADigit CHR ''u''))"
proof -
  have c: "new_Decimal128 ''7'' =
     Inr \<lparr>isNaN = False, isFinite = True, digits = \<lparr>lhs = [7], rhs = []\<rparr>, isNegative = False\<rparr>"
    by code_simp
  show ?thesis
    using c round_to_all_fraction_digits_raises [OF c, of 0 ROUNDING_MODE_DEFAULT]
    by simp
qed

end
